theory Spec2Isabelle
  imports Complex_Main
begin

section \<open>Python values, exceptions and the environment\<close>

text \<open>
  The exceptions the modelled code can raise. \<open>RequestError\<close> stands for
  \<^verbatim>\<open>requests.RequestException\<close>, the only exception the mailbox code catches.
\<close>

datatype py_error = IndexError | KeyError | ValueError | TypeError | RequestError

text \<open>
  An identity is a Python dict in insertion order. Its values are strings, except for
  the address, which is a nested dict of strings.
\<close>

datatype pyval = Str string | Dict "(string \<times> string) list"

type_synonym identity = "(string \<times> pyval) list"

record datetime =
  year :: int
  month :: nat
  day :: nat
  hour :: nat
  minute :: nat
  second :: nat

text \<open>The answer of the mail service to one HTTP request: a network error or a
  non-2xx status (both surface as \<^verbatim>\<open>requests.RequestException\<close>), or a reply.\<close>

datatype 'a http = Failure | Reply 'a

datatype file_content = Text string | Csv "string list list"

datatype event =
    Http_get string
  | Http_post string
  | Sleep real
  | Log string
  | Print string
  | Display identity

text \<open>
  Everything outside the program: the operating system's random source (\<open>entropy\<close>, read
  at position \<open>drawn\<close>), the wall clock (\<open>clock\<close>, read at position \<open>ticks\<close>), the mail
  service (one oracle per endpoint, indexed by the number of requests made so far), the
  files written, and the trace of observable actions in the order they happen.
\<close>

record world =
  entropy :: "nat \<Rightarrow> nat"
  drawn :: nat
  clock :: "nat \<Rightarrow> datetime"
  ticks :: nat
  get_domains :: "nat \<Rightarrow> string list http"
  post_accounts :: "nat \<Rightarrow> unit http"
  post_token :: "nat \<Rightarrow> string option http"
  get_messages :: "nat \<Rightarrow> string list http"
  get_message :: "nat \<Rightarrow> string http"
  requests :: nat
  files :: "string \<rightharpoonup> file_content"
  trace :: "event list"

type_synonym 'a result = "(py_error + 'a) \<times> world"

definition and_then :: "'a result \<Rightarrow> ('a \<Rightarrow> world \<Rightarrow> 'b result) \<Rightarrow> 'b result" where
  "and_then m f = (case m of (Inl e, w) \<Rightarrow> (Inl e, w) | (Inr x, w) \<Rightarrow> f x w)"

definition emit :: "event \<Rightarrow> world \<Rightarrow> world" where
  "emit e w = w\<lparr>trace := trace w @ [e]\<rparr>"

definition now :: "world \<Rightarrow> datetime \<times> world" where
  "now w = (clock w (ticks w), w\<lparr>ticks := ticks w + 1\<rparr>)"

subsection \<open>The \<^verbatim>\<open>secrets\<close> module\<close>

text \<open>\<^verbatim>\<open>secrets.randbelow(n)\<close>: raises \<^verbatim>\<open>ValueError\<close> unless \<open>n\<close> is positive, otherwise
  a value in \<open>[0, n)\<close>; every such value is the result for some entropy.\<close>

definition randbelow :: "int \<Rightarrow> world \<Rightarrow> int result" where
  "randbelow n w =
     (if n \<le> 0 then (Inl ValueError, w)
      else (Inr (int (entropy w (drawn w)) mod n), w\<lparr>drawn := drawn w + 1\<rparr>))"

text \<open>\<^verbatim>\<open>secrets.choice(seq)\<close>: raises \<^verbatim>\<open>IndexError\<close> on an empty sequence, otherwise
  \<^verbatim>\<open>seq[randbelow(len(seq))]\<close>.\<close>

definition choice :: "'a list \<Rightarrow> world \<Rightarrow> 'a result" where
  "choice xs w =
     (if xs = [] then (Inl IndexError, w)
      else and_then (randbelow (int (length xs)) w) (\<lambda>i w. (Inr (xs ! nat i), w)))"

text \<open>\<^verbatim>\<open>''.join(secrets.choice(chars) for _ in range(n))\<close>.\<close>

fun choices :: "nat \<Rightarrow> 'a list \<Rightarrow> world \<Rightarrow> 'a list result" where
  "choices 0 xs w = (Inr [], w)"
| "choices (Suc n) xs w =
     and_then (choice xs w) (\<lambda>c w.
     and_then (choices n xs w) (\<lambda>cs w. (Inr (c # cs), w)))"

subsection \<open>Strings\<close>

text \<open>\<^verbatim>\<open>str.lower\<close>, on ASCII: the characters of \<open>string\<close> are bytes.\<close>

definition ascii_lowercase :: string where
  "ascii_lowercase = ''abcdefghijklmnopqrstuvwxyz''"

definition ascii_uppercase :: string where
  "ascii_uppercase = ''ABCDEFGHIJKLMNOPQRSTUVWXYZ''"

definition digits :: string where
  "digits = ''0123456789''"

definition lower_char :: "char \<Rightarrow> char" where
  "lower_char c = (case map_of (zip ascii_uppercase ascii_lowercase) c of None \<Rightarrow> c | Some l \<Rightarrow> l)"

definition lower :: "string \<Rightarrow> string" where
  "lower s = map lower_char s"

definition digit_char :: "nat \<Rightarrow> char" where
  "digit_char d = digits ! d"

text \<open>\<^verbatim>\<open>str(n)\<close> of a natural number: decimal, no padding.\<close>

fun str_nat :: "nat \<Rightarrow> string" where
  "str_nat n = (if n < 10 then [digit_char n] else str_nat (n div 10) @ [digit_char (n mod 10)])"

declare str_nat.simps [simp del]

definition str_int :: "int \<Rightarrow> string" where
  "str_int i = (if i < 0 then CHR ''-'' # str_nat (nat (- i)) else str_nat (nat i))"

text \<open>The format specification \<^verbatim>\<open>:02d\<close> and the two-digit fields of \<^verbatim>\<open>strftime\<close>
  for a natural number: padded with zeros on the left to width 2.\<close>

definition pad2 :: "nat \<Rightarrow> string" where
  "pad2 n = (let s = str_nat n in replicate (2 - length s) CHR ''0'' @ s)"

definition hex_char :: "nat \<Rightarrow> char" where
  "hex_char d = ''0123456789abcdef'' ! d"

definition punctuation :: string where
  "punctuation = ''!\"#$%&'' @ [CHR 0x27] @ ''()*+,-./:;<=>?@['' @ [CHR 0x5C] @ '']^_`{|}~''"

section \<open>The generator and its lookup tables\<close>

text \<open>
  The attributes of \<^verbatim>\<open>TemporaryIdentityGenerator\<close>, with the shape of the built-in
  tables: a dict from a key to a list of strings (to one string for the phone formats),
  and a list of strings for the domains.
\<close>

record generator =
  state_maps :: "string \<rightharpoonup> string list"
  first_names :: "string \<rightharpoonup> string list"
  last_names :: "string \<rightharpoonup> string list"
  domains :: "string list"
  streets :: "string \<rightharpoonup> string list"
  addresses :: "string \<rightharpoonup> string list"
  phone_formats :: "string \<rightharpoonup> string"

definition default_generator :: generator where
  "default_generator = \<lparr>
     state_maps = [''US'' \<mapsto> [''CA'', ''NY'', ''TX''], ''in'' \<mapsto> [''MH'', ''DL'', ''KA'']],
     first_names = [''male'' \<mapsto> [''John'', ''Michael''], ''female'' \<mapsto> [''Mary'', ''Sarah''],
                    ''neutral'' \<mapsto> [''Alex'', ''Taylor'']],
     last_names = [''US'' \<mapsto> [''Smith'', ''Johnson'']],
     domains = [''example.com'', ''test.org''],
     streets = [''US'' \<mapsto> [''Main St'', ''Elm St''], ''in'' \<mapsto> [''MG Road'', ''Park Ave'']],
     addresses = [''CA'' \<mapsto> [''San Francisco'', ''Los Angeles''], ''NY'' \<mapsto> [''New York'', ''Albany''],
                  ''MH'' \<mapsto> [''Mumbai'', ''Pune'']],
     phone_formats = [''US'' \<mapsto> ''+1-###-###-####'', ''in'' \<mapsto> ''+91-#####-#####'']
   \<rparr>"

text \<open>\<^verbatim>\<open>table.get(key, table[default_key])\<close>: Python evaluates the default first, so
  a table without the default key raises \<^verbatim>\<open>KeyError\<close> whatever \<open>key\<close> is.\<close>

definition get_or :: "(string \<rightharpoonup> 'v) \<Rightarrow> string \<Rightarrow> string \<Rightarrow> world \<Rightarrow> 'v result" where
  "get_or table key default_key w =
     (case table default_key of
        None \<Rightarrow> (Inl KeyError, w)
      | Some d \<Rightarrow> (Inr (case table key of None \<Rightarrow> d | Some v \<Rightarrow> v), w))"

definition generate_name :: "generator \<Rightarrow> string \<Rightarrow> string \<Rightarrow> world \<Rightarrow> (string \<times> string) result" where
  "generate_name g gender country w =
     (let gender1 = (if gender \<noteq> [] then lower gender else ''any'') in
      and_then (if gender1 = ''any'' then choice [''male'', ''female'', ''neutral''] w
                else (Inr gender1, w)) (\<lambda>gender2 w.
      let first_name_key = (if gender2 \<in> dom (first_names g) then gender2 else ''neutral'') in
      and_then (get_or (first_names g) first_name_key ''neutral'' w) (\<lambda>firsts w.
      and_then (choice firsts w) (\<lambda>first_name w.
      let last_name_key = (if country \<in> dom (last_names g) then country else ''US'') in
      and_then (get_or (last_names g) last_name_key ''US'' w) (\<lambda>lasts w.
      and_then (choice lasts w) (\<lambda>last_name w.
      (Inr (first_name, last_name), w)))))))"

definition generate_email :: "generator \<Rightarrow> string \<Rightarrow> string \<Rightarrow> string \<Rightarrow> world \<Rightarrow> string result" where
  "generate_email g first_name last_name country w =
     and_then (choice (domains g) w) (\<lambda>domain w.
     and_then (randbelow 1000 w) (\<lambda>n w.
     let username = lower first_name @ ''.'' @ lower last_name @ str_int n in
     (Inr (username @ ''@'' @ domain), w)))"

fun fill_format :: "string \<Rightarrow> world \<Rightarrow> string result" where
  "fill_format [] w = (Inr [], w)"
| "fill_format (c # cs) w =
     and_then (if c = CHR ''#'' then choice digits w else (Inr c, w)) (\<lambda>d w.
     and_then (fill_format cs w) (\<lambda>ds w. (Inr (d # ds), w)))"

definition generate_phone :: "generator \<Rightarrow> string \<Rightarrow> world \<Rightarrow> string result" where
  "generate_phone g country w =
     and_then (get_or (phone_formats g) country ''US'' w) (\<lambda>phone_format w.
     fill_format phone_format w)"

record address =
  street :: string
  city :: string
  state :: string
  country :: string

definition generate_address :: "generator \<Rightarrow> string \<Rightarrow> world \<Rightarrow> address result" where
  "generate_address g country0 w =
     (let country1 = (if country0 \<in> dom (state_maps g) then country0 else ''US'') in
      and_then (get_or (state_maps g) country1 ''US'' w) (\<lambda>states w.
      and_then (choice states w) (\<lambda>state1 w.
      and_then (get_or (streets g) country1 ''US'' w) (\<lambda>street_names w.
      and_then (choice street_names w) (\<lambda>street1 w.
      and_then (get_or (addresses g) state1 ''CA'' w) (\<lambda>cities w.
      and_then (choice cities w) (\<lambda>city1 w.
      and_then (randbelow 1000 w) (\<lambda>n w.
      (Inr \<lparr>street = str_int n @ '' '' @ street1, city = city1, state = state1,
            country = country1\<rparr>, w)))))))))"

text \<open>\<^verbatim>\<open>secrets.token_hex(2)\<close>: two random bytes, each as two lower-case hex digits.\<close>

definition token_hex2 :: "world \<Rightarrow> string result" where
  "token_hex2 w =
     and_then (randbelow 256 w) (\<lambda>a w.
     and_then (randbelow 256 w) (\<lambda>b w.
     (Inr [hex_char (nat a div 16), hex_char (nat a mod 16),
           hex_char (nat b div 16), hex_char (nat b mod 16)], w)))"

definition generate_username :: "string \<Rightarrow> string \<Rightarrow> world \<Rightarrow> string result" where
  "generate_username first_name last_name w =
     (let base = lower first_name @ lower last_name in
      and_then (token_hex2 w) (\<lambda>suffix w. (Inr (base @ suffix), w)))"

text \<open>The three numbers \<^verbatim>\<open>generate_birthdate\<close> draws, before it formats them.\<close>

definition birthdate_parts :: "int \<Rightarrow> int \<Rightarrow> world \<Rightarrow> (int \<times> int \<times> int) result" where
  "birthdate_parts min_age max_age w =
     (let (t, w) = now w;
          current_year = year t;
          start_year = current_year - max_age;
          end_year = current_year - min_age in
      and_then (randbelow (end_year - start_year + 1) w) (\<lambda>r w.
      let y = r + start_year in
      and_then (randbelow 12 w) (\<lambda>r w.
      let m = r + 1 in
      and_then (randbelow 28 w) (\<lambda>r w.
      let d = r + 1 in
      (Inr (y, m, d), w)))))"

definition generate_birthdate :: "int \<Rightarrow> int \<Rightarrow> world \<Rightarrow> string result" where
  "generate_birthdate min_age max_age w =
     and_then (birthdate_parts min_age max_age w) (\<lambda>(y, m, d) w.
     (Inr (str_int y @ ''-'' @ pad2 (nat m) @ ''-'' @ pad2 (nat d)), w))"

definition generate_password :: "world \<Rightarrow> string result" where
  "generate_password w =
     (let chars = ascii_lowercase @ ascii_uppercase @ digits @ punctuation in
      choices 12 chars w)"

section \<open>The disposable mailbox\<close>

text \<open>One HTTP call through \<^verbatim>\<open>requests\<close> followed by \<^verbatim>\<open>raise_for_status()\<close>: the call is
  recorded in the trace, and the service's answer is a reply or a
  \<^verbatim>\<open>RequestException\<close>.\<close>

definition request :: "event \<Rightarrow> (world \<Rightarrow> nat \<Rightarrow> 'a http) \<Rightarrow> world \<Rightarrow> 'a result" where
  "request ev oracle w =
     (let w' = (emit ev w)\<lparr>requests := requests w + 1\<rparr> in
      case oracle w (requests w) of
        Failure \<Rightarrow> (Inl RequestError, w')
      | Reply x \<Rightarrow> (Inr x, w'))"

text \<open>How the body of the \<^verbatim>\<open>try\<close> block of \<^verbatim>\<open>generate_temp_email\<close> ends when it does
  not raise: with the \<^verbatim>\<open>return\<close>, or with the \<^verbatim>\<open>break\<close> taken when the service
  offers no domain.\<close>

datatype attempt_outcome = Created string "string option" | No_domains

definition temp_email_attempt :: "world \<Rightarrow> attempt_outcome result" where
  "temp_email_attempt w =
     and_then (request (Http_get ''https://api.mail.tm/domains'') get_domains w) (\<lambda>doms w.
     if doms = [] then (Inr No_domains, emit (Log ''No domains available from Mail.tm'') w)
     else
     and_then (choice doms w) (\<lambda>domain w.
     and_then (choices 10 (ascii_lowercase @ digits) w) (\<lambda>username w.
     and_then (choices 12 (ascii_lowercase @ ascii_uppercase @ digits @ punctuation) w) (\<lambda>password w.
     let email = username @ ''@'' @ domain in
     and_then (request (Http_post ''https://api.mail.tm/accounts'') post_accounts w) (\<lambda>_ w.
     and_then (request (Http_post ''https://api.mail.tm/token'') post_token w) (\<lambda>token w.
     (Inr (Created email token), emit (Log (''Created Mail.tm account: '' @ email)) w)))))))"

definition give_up :: "nat \<Rightarrow> world \<Rightarrow> (string option \<times> string option) result" where
  "give_up retries w =
     (Inr (None, None),
      emit (Print (''Failed to create Mail.tm account after '' @ str_nat retries @ '' attempts.'')) w)"

text \<open>The \<^verbatim>\<open>for attempt in range(retries)\<close> loop, over the attempts still to be made.
  The text of the caught exception is left out of the log message.\<close>

fun temp_email_loop :: "nat \<Rightarrow> nat list \<Rightarrow> world \<Rightarrow> (string option \<times> string option) result" where
  "temp_email_loop retries [] w = give_up retries w"
| "temp_email_loop retries (attempt # rest) w =
     (case temp_email_attempt w of
        (Inr (Created email token), w1) \<Rightarrow> (Inr (Some email, token), w1)
      | (Inr No_domains, w1) \<Rightarrow> give_up retries w1
      | (Inl e, w1) \<Rightarrow>
          if e = RequestError then
            let w2 = emit (Log (''Mail.tm attempt '' @ str_nat (attempt + 1) @ '' failed'')) w1;
                w3 = (if attempt < retries - 1 then emit (Sleep (2 ^ attempt)) w2 else w2)
            in temp_email_loop retries rest w3
          else (Inl e, w1))"

definition generate_temp_email :: "world \<Rightarrow> (string option \<times> string option) result" where
  "generate_temp_email w = (let retries = 3 in temp_email_loop retries [0..<retries] w)"

text \<open>Python's truth value of an optional string: \<^verbatim>\<open>None\<close> and \<^verbatim>\<open>''\<close> are false.\<close>

definition truthy :: "string option \<Rightarrow> bool" where
  "truthy s = (case s of None \<Rightarrow> False | Some t \<Rightarrow> t \<noteq> [])"

section \<open>Assembling an identity\<close>

definition strftime_created :: "datetime \<Rightarrow> string" where
  "strftime_created t =
     str_int (year t) @ ''-'' @ pad2 (month t) @ ''-'' @ pad2 (day t) @ '' ''
       @ pad2 (hour t) @ '':'' @ pad2 (minute t) @ '':'' @ pad2 (second t)"

definition address_dict :: "address \<Rightarrow> pyval" where
  "address_dict a = Dict [(''street'', street a), (''city'', city a), (''state'', state a),
                          (''country'', country a)]"

text \<open>The \<^verbatim>\<open>if manual_email / elif use_temp_email / else\<close> chain of
  \<^verbatim>\<open>generate_identity\<close>: the email address and the mailbox token.\<close>

definition choose_email ::
  "generator \<Rightarrow> string \<Rightarrow> string \<Rightarrow> string \<Rightarrow> bool \<Rightarrow> string option \<Rightarrow> world
     \<Rightarrow> (string \<times> string option) result" where
  "choose_email g first_name last_name country0 use_temp_email manual_email w =
     (if truthy manual_email then (Inr (the manual_email, None), w)
      else if use_temp_email then
        and_then (generate_temp_email w) (\<lambda>(email, email_token) w.
        if \<not> truthy email then
          and_then (generate_email g first_name last_name country0 w) (\<lambda>email w.
          (Inr (email, None), w))
        else (Inr (the email, email_token), w))
      else
        and_then (generate_email g first_name last_name country0 w) (\<lambda>email w.
        (Inr (email, None), w)))"

definition generate_identity ::
  "generator \<Rightarrow> string \<Rightarrow> string \<Rightarrow> bool \<Rightarrow> string option \<Rightarrow> int \<Rightarrow> int \<Rightarrow> world
     \<Rightarrow> identity result" where
  "generate_identity g country0 gender use_temp_email manual_email min_age max_age w =
     and_then (generate_name g gender country0 w) (\<lambda>(first_name, last_name) w.
     let full_name = first_name @ '' '' @ last_name in
     and_then (choose_email g first_name last_name country0 use_temp_email manual_email w)
       (\<lambda>(email, email_token) w.
     and_then (generate_phone g country0 w) (\<lambda>phone w.
     and_then (generate_address g country0 w) (\<lambda>addr w.
     and_then (generate_username first_name last_name w) (\<lambda>username w.
     and_then (generate_birthdate min_age max_age w) (\<lambda>birthdate w.
     and_then (generate_password w) (\<lambda>password w.
     let (t, w) = now w;
         identity = [(''first_name'', Str first_name), (''last_name'', Str last_name),
                     (''full_name'', Str full_name), (''email'', Str email),
                     (''phone'', Str phone), (''address'', address_dict addr),
                     (''username'', Str username), (''birthdate'', Str birthdate),
                     (''password'', Str password), (''created'', Str (strftime_created t))]
     in (Inr (if truthy email_token then identity @ [(''email_token'', Str (the email_token))]
              else identity), w))))))))"

section \<open>Polling the inbox\<close>

text \<open>
  The loop over the messages of one poll attempt. \<open>re_search pattern content\<close> stands
  for \<^verbatim>\<open>re.search(pattern, content)\<close> followed by \<^verbatim>\<open>.group()\<close>: \<open>None\<close> when nothing
  matches, otherwise the matched text. A match object is true even when it matched the
  empty string.
\<close>

fun scan_messages ::
  "(string \<Rightarrow> string \<Rightarrow> string option) \<Rightarrow> string \<Rightarrow> string \<Rightarrow> string list \<Rightarrow> world
     \<Rightarrow> (string option \<times> string option) option result" where
  "scan_messages re_search code_pattern link_pattern [] w = (Inr None, w)"
| "scan_messages re_search code_pattern link_pattern (msg_id # rest) w =
     and_then (request (Http_get (''https://api.mail.tm/messages/'' @ msg_id)) get_message w)
       (\<lambda>content w.
     case re_search code_pattern content of
       Some code \<Rightarrow>
         (Inr (Some (Some code, None)),
          emit (Log (''Found verification code in Mail.tm inbox: '' @ code)) w)
     | None \<Rightarrow>
         (case re_search link_pattern content of
            Some link \<Rightarrow>
              (Inr (Some (None, Some link)),
               emit (Log (''Found confirmation link in Mail.tm inbox: '' @ link)) w)
          | None \<Rightarrow> scan_messages re_search code_pattern link_pattern rest w))"

text \<open>The body of the \<^verbatim>\<open>try\<close> block of one poll attempt.\<close>

definition poll_once ::
  "(string \<Rightarrow> string \<Rightarrow> string option) \<Rightarrow> string \<Rightarrow> string \<Rightarrow> world
     \<Rightarrow> (string option \<times> string option) option result" where
  "poll_once re_search code_pattern link_pattern w =
     and_then (request (Http_get ''https://api.mail.tm/messages'') get_messages w) (\<lambda>messages w.
     scan_messages re_search code_pattern link_pattern messages w)"

text \<open>\<^verbatim>\<open>time.sleep(secs)\<close> raises \<^verbatim>\<open>ValueError\<close> for a negative duration.\<close>

definition sleep :: "real \<Rightarrow> world \<Rightarrow> unit result" where
  "sleep secs w = (if secs < 0 then (Inl ValueError, w) else (Inr (), emit (Sleep secs) w))"

fun poll_loop ::
  "(string \<Rightarrow> string \<Rightarrow> string option) \<Rightarrow> string \<Rightarrow> string \<Rightarrow> real \<Rightarrow> nat list \<Rightarrow> world
     \<Rightarrow> (string option \<times> string option) result" where
  "poll_loop re_search code_pattern link_pattern poll_interval [] w =
     (Inr (None, None), emit (Log ''No verification code or link found after polling'') w)"
| "poll_loop re_search code_pattern link_pattern poll_interval (attempt # rest) w =
     (case poll_once re_search code_pattern link_pattern w of
        (Inr (Some found), w1) \<Rightarrow> (Inr found, w1)
      | (Inr None, w1) \<Rightarrow>
          and_then (sleep poll_interval w1) (\<lambda>_ w.
          poll_loop re_search code_pattern link_pattern poll_interval rest w)
      | (Inl e, w1) \<Rightarrow>
          if e = RequestError then
            and_then (sleep poll_interval
                        (emit (Log (''Inbox check attempt '' @ str_nat (attempt + 1) @ '' failed'')) w1))
              (\<lambda>_ w. poll_loop re_search code_pattern link_pattern poll_interval rest w)
          else (Inl e, w1))"

text \<open>\<^verbatim>\<open>check_inbox\<close>. The token only goes into the request header; \<^verbatim>\<open>range\<close> of a
  number below 1 is empty.\<close>

definition check_inbox ::
  "(string \<Rightarrow> string \<Rightarrow> string option) \<Rightarrow> string \<Rightarrow> string \<Rightarrow> string \<Rightarrow> int \<Rightarrow> real \<Rightarrow> world
     \<Rightarrow> (string option \<times> string option) result" where
  "check_inbox re_search token code_pattern link_pattern poll_attempts poll_interval w =
     poll_loop re_search code_pattern link_pattern poll_interval [0..<nat poll_attempts] w"


subsection \<open>A matcher for the two default patterns\<close>

text \<open>
  \<^verbatim>\<open>re.search\<close> for the default arguments of \<^verbatim>\<open>check_inbox\<close>, used in the examples:
  \<^verbatim>\<open>\b\d{6}\b\<close> is the leftmost run of six digits with no word character before or
  after it, \<^verbatim>\<open>https?://[^\s]+\<close> the leftmost \<^verbatim>\<open>http://\<close> or \<^verbatim>\<open>https://\<close> followed by
  at least one character that is not white space, up to the next white space.
\<close>

definition is_word_char :: "char \<Rightarrow> bool" where
  "is_word_char c = (c \<in> set (ascii_lowercase @ ascii_uppercase @ digits @ ''_''))"

definition is_space_char :: "char \<Rightarrow> bool" where
  "is_space_char c = (c \<in> set [CHR '' '', CHR 0x09, CHR 0x0A, CHR 0x0B, CHR 0x0C, CHR 0x0D])"

fun search_code :: "bool \<Rightarrow> string \<Rightarrow> string option" where
  "search_code after_word [] = None"
| "search_code after_word (c # cs) =
     (let candidate = take 6 (c # cs) in
      if \<not> after_word \<and> length candidate = 6 \<and> list_all (\<lambda>d. d \<in> set digits) candidate
         \<and> (case drop 6 (c # cs) of [] \<Rightarrow> True | d # _ \<Rightarrow> \<not> is_word_char d)
      then Some candidate
      else search_code (is_word_char c) cs)"

definition link_at :: "string \<Rightarrow> string \<Rightarrow> string option" where
  "link_at scheme s =
     (let rest = drop (length scheme) s in
      if take (length scheme) s = scheme \<and> takeWhile (\<lambda>c. \<not> is_space_char c) rest \<noteq> []
      then Some (scheme @ takeWhile (\<lambda>c. \<not> is_space_char c) rest) else None)"

fun search_link :: "string \<Rightarrow> string option" where
  "search_link [] = None"
| "search_link (c # cs) =
     (case link_at ''https://'' (c # cs) of
        Some m \<Rightarrow> Some m
      | None \<Rightarrow> (case link_at ''http://'' (c # cs) of
                   Some m \<Rightarrow> Some m
                 | None \<Rightarrow> search_link cs))"

definition default_code_pattern :: string where
  "default_code_pattern = [CHR 0x5C] @ ''b'' @ [CHR 0x5C] @ ''d{6}'' @ [CHR 0x5C] @ ''b''"

definition default_link_pattern :: string where
  "default_link_pattern = ''https?://[^'' @ [CHR 0x5C] @ ''s]+''"

definition default_search :: "string \<Rightarrow> string \<Rightarrow> string option" where
  "default_search pattern content =
     (if pattern = default_code_pattern then search_code False content
      else if pattern = default_link_pattern then search_link content
      else None)"

section \<open>Saving identities\<close>

text \<open>
  The functions of other packages that \<^verbatim>\<open>save_identity\<close> calls: the two serialisers,
  the key derivation (password, salt, iterations, length), the base64 encoding and the
  Fernet encryption (key, the random bytes and the time it reads, plaintext).
\<close>

record library =
  json_dumps :: "identity list \<Rightarrow> string"
  yaml_dump :: "identity list \<Rightarrow> string"
  pbkdf2_hmac_sha256 :: "string \<Rightarrow> string \<Rightarrow> nat \<Rightarrow> nat \<Rightarrow> string"
  urlsafe_b64encode :: "string \<Rightarrow> string"
  fernet_encrypt :: "string \<Rightarrow> nat \<Rightarrow> datetime \<Rightarrow> string \<Rightarrow> string"
  re_search :: "string \<Rightarrow> string \<Rightarrow> string option"

text \<open>\<^verbatim>\<open>d[k] = v\<close> on a dict in insertion order: an existing key keeps its place.\<close>

fun dict_set :: "string \<Rightarrow> 'v \<Rightarrow> (string \<times> 'v) list \<Rightarrow> (string \<times> 'v) list" where
  "dict_set k v [] = [(k, v)]"
| "dict_set k v ((k', v') # kvs) =
     (if k' = k then (k, v) # kvs else (k', v') # dict_set k v kvs)"

text \<open>The inner loops of the CSV branch: one identity becomes one flat dict.\<close>

definition flatten_identity :: "identity \<Rightarrow> (string \<times> string) list" where
  "flatten_identity identity =
     foldl (\<lambda>flat_identity (key, value).
              case value of
                Dict sub \<Rightarrow>
                  foldl (\<lambda>flat_identity (subkey, subvalue).
                           dict_set (key @ ''_'' @ subkey) subvalue flat_identity)
                        flat_identity sub
              | Str s \<Rightarrow> dict_set key s flat_identity)
           [] identity"

text \<open>The columns that one item of an identity stands for, in the words of the
  specification: its key, or for a dict-valued item one column \<open>key_subkey\<close> for each
  of its subfields.\<close>

definition columns_of :: "string \<times> pyval \<Rightarrow> string set" where
  "columns_of item =
     (case item of
        (key, Str s) \<Rightarrow> {key}
      | (key, Dict sub) \<Rightarrow> (\<lambda>subkey. key @ ''_'' @ subkey) ` fst ` set sub)"

text \<open>\<^verbatim>\<open>strftime("%Y%m%d_%H%M%S")\<close>.\<close>

definition strftime_stamp :: "datetime \<Rightarrow> string" where
  "strftime_stamp t =
     str_int (year t) @ pad2 (month t) @ pad2 (day t) @ ''_''
       @ pad2 (hour t) @ pad2 (minute t) @ pad2 (second t)"

text \<open>Writing to an open CSV file appends a row; the file is a list of rows.\<close>

definition append_row :: "string \<Rightarrow> string list \<Rightarrow> world \<Rightarrow> world" where
  "append_row filename row w =
     w\<lparr>files := (files w)(filename \<mapsto>
          (case files w filename of Some (Csv rows) \<Rightarrow> Csv (rows @ [row]) | _ \<Rightarrow> Csv [row]))\<rparr>"

text \<open>\<^verbatim>\<open>DictWriter.writerows\<close>: a row with a key that is no field name raises
  \<^verbatim>\<open>ValueError\<close>, after the rows before it are written; a missing key gives an
  empty cell.\<close>

fun writerows :: "string \<Rightarrow> string list \<Rightarrow> (string \<times> string) list list \<Rightarrow> world \<Rightarrow> unit result" where
  "writerows filename fieldnames [] w = (Inr (), w)"
| "writerows filename fieldnames (rowdict # rowdicts) w =
     (if \<exists>k \<in> set (map fst rowdict). k \<notin> set fieldnames then (Inl ValueError, w)
      else writerows filename fieldnames rowdicts
             (append_row filename
                (map (\<lambda>key. case map_of rowdict key of None \<Rightarrow> [] | Some v \<Rightarrow> v) fieldnames) w))"

definition saved :: "string \<Rightarrow> world \<Rightarrow> unit result" where
  "saved filename w =
     (Inr (), emit (Log (''Identities saved to '' @ filename))
                (emit (Print (''Identities saved to '' @ filename)) w))"

definition save_identity ::
  "library \<Rightarrow> identity list \<Rightarrow> string \<Rightarrow> string option \<Rightarrow> world \<Rightarrow> unit result" where
  "save_identity lib identities output_format encrypt_password w =
     (let (t, w) = now w;
          timestamp = strftime_stamp t in
      if output_format = ''csv'' then
        let filename = ''data/identities_'' @ timestamp @ ''.csv'';
            flat_identities = map flatten_identity identities;
            w = w\<lparr>files := (files w)(filename \<mapsto> Csv [])\<rparr> in
        (case flat_identities of
           [] \<Rightarrow> (Inl IndexError, w)
         | first # _ \<Rightarrow>
             let fieldnames = map fst first;
                 w = append_row filename fieldnames w in
             and_then (writerows filename fieldnames flat_identities w) (\<lambda>_ w.
             saved filename w))
      else
        let filename = ''data/identities_'' @ timestamp @ ''.'' @ output_format;
            data = (if output_format = ''json'' then json_dumps lib identities
                    else yaml_dump lib identities) in
        if truthy encrypt_password then
          let key = urlsafe_b64encode lib
                      (pbkdf2_hmac_sha256 lib (the encrypt_password) ''salt_'' 100000 32);
              iv = entropy w (drawn w);
              w = w\<lparr>drawn := drawn w + 1\<rparr>;
              (t, w) = now w;
              data = fernet_encrypt lib key iv t data in
          saved filename (w\<lparr>files := (files w)(filename \<mapsto> Text data)\<rparr>)
        else saved filename (w\<lparr>files := (files w)(filename \<mapsto> Text data)\<rparr>))"

definition newline :: string where
  "newline = [CHR 0x0A]"

definition identity_log_text :: "identity \<Rightarrow> string" where
  "identity_log_text identity =
     ''Generated Identity Details'' @ newline @ ''=========================='' @ newline
     @ concat (map (\<lambda>(key, value).
         case value of
           Dict sub \<Rightarrow>
             key @ '':'' @ newline
             @ concat (map (\<lambda>(subkey, subvalue). ''  '' @ subkey @ '': '' @ subvalue @ newline) sub)
         | Str s \<Rightarrow> key @ '': '' @ s @ newline) identity)"

definition save_identity_log :: "identity \<Rightarrow> string \<Rightarrow> world \<Rightarrow> world" where
  "save_identity_log identity filename w =
     (let filepath = ''logs/manual_logs/'' @ filename in
      emit (Log (''Identity log saved to '' @ filepath))
        (w\<lparr>files := (files w)(filepath \<mapsto> Text (identity_log_text identity))\<rparr>))"

section \<open>Batches\<close>

text \<open>\<^verbatim>\<open>s.split(sep)\<close> for a one-character separator.\<close>

fun split_on :: "char \<Rightarrow> string \<Rightarrow> string list" where
  "split_on sep [] = [[]]"
| "split_on sep (c # cs) =
     (if c = sep then [] # split_on sep cs
      else (case split_on sep cs of [] \<Rightarrow> [[c]] | p # ps \<Rightarrow> (c # p) # ps))"

definition address_fields :: "string list" where
  "address_fields = [''address_street'', ''address_city'', ''address_state'', ''address_country'']"

text \<open>The projection of an identity onto the requested fields.\<close>

definition project_fields :: "string list \<Rightarrow> identity \<Rightarrow> identity" where
  "project_fields fields0 identity =
     foldl (\<lambda>filtered_identity field.
              case map_of identity field of
                Some v \<Rightarrow> dict_set field v filtered_identity
              | None \<Rightarrow>
                  if field \<in> set address_fields then
                    (case map_of identity ''address'' of
                       Some (Dict addr) \<Rightarrow>
                         (let subkey = split_on CHR ''_'' field ! 1 in
                          case map_of addr subkey of
                            Some v \<Rightarrow> dict_set field (Str v) filtered_identity
                          | None \<Rightarrow> filtered_identity)
                     | _ \<Rightarrow> filtered_identity)
                  else filtered_identity)
           [] fields0"

definition inbox_hint :: "string \<Rightarrow> string" where
  "inbox_hint token =
     ''To retrieve verification code or link from inbox, run the script with check-inbox ''
       @ token @ '' [--code-pattern <pattern>] [--link-pattern <pattern>]''"

text \<open>The text that \<^verbatim>\<open>print\<close> shows for the value of a key.\<close>

definition pyval_text :: "pyval \<Rightarrow> string" where
  "pyval_text v = (case v of Str s \<Rightarrow> s | Dict _ \<Rightarrow> ''{...}'')"

text \<open>\<^verbatim>\<open>display_identity\<close> prints the identity; the trace records which.\<close>

definition display_identity :: "identity \<Rightarrow> world \<Rightarrow> world" where
  "display_identity identity w = emit (Display identity) w"

text \<open>The body of the \<^verbatim>\<open>for _ in range(count)\<close> loop, \<open>n\<close> rounds of it.\<close>

fun batch_loop ::
  "generator \<Rightarrow> nat \<Rightarrow> string \<Rightarrow> string \<Rightarrow> string list option \<Rightarrow> bool \<Rightarrow> int \<Rightarrow> int \<Rightarrow> bool
     \<Rightarrow> string option \<Rightarrow> world \<Rightarrow> identity list result" where
  "batch_loop g 0 country0 gender fields0 preview min_age max_age use_temp_email manual_email w =
     (Inr [], w)"
| "batch_loop g (Suc n) country0 gender fields0 preview min_age max_age use_temp_email manual_email w =
     and_then (generate_identity g country0 gender use_temp_email manual_email min_age max_age w)
       (\<lambda>identity w.
     let identity = (case fields0 of
                       None \<Rightarrow> identity
                     | Some fs \<Rightarrow> if fs = [] then identity else project_fields fs identity);
         w = (if preview then
                let w = display_identity identity w in
                (case map_of identity ''email_token'' of
                   Some token \<Rightarrow>
                     if use_temp_email then emit (Print (inbox_hint (pyval_text token))) w else w
                 | None \<Rightarrow> w)
              else w) in
     and_then (batch_loop g n country0 gender fields0 preview min_age max_age use_temp_email
                 manual_email w) (\<lambda>identities w.
     (Inr (identity # identities), w)))"

definition generate_batch_identities ::
  "generator \<Rightarrow> library \<Rightarrow> int \<Rightarrow> string \<Rightarrow> string \<Rightarrow> bool \<Rightarrow> string list option \<Rightarrow> string
     \<Rightarrow> bool \<Rightarrow> int \<Rightarrow> int \<Rightarrow> bool \<Rightarrow> string option \<Rightarrow> string option \<Rightarrow> world
     \<Rightarrow> identity list result" where
  "generate_batch_identities g lib count country0 gender save fields0 output_format
       preview min_age max_age use_temp_email manual_email encrypt_password w =
     and_then (batch_loop g (nat count) country0 gender fields0 preview min_age max_age
                 use_temp_email manual_email w) (\<lambda>identities w.
     if save then
       and_then (save_identity lib identities output_format encrypt_password w) (\<lambda>_ w.
       (Inr identities, w))
     else (Inr identities, w))"

section \<open>The interactive shell\<close>

text \<open>
  The namespace that \<^verbatim>\<open>argparse\<close> returns for the \<^verbatim>\<open>generate\<close> command and for the
  \<^verbatim>\<open>check-inbox\<close> command. Parsing the command line itself is the work of
  \<^verbatim>\<open>argparse\<close>: a command whose arguments it rejects (\<^verbatim>\<open>SystemExit\<close>) carries no
  namespace.
\<close>

record args =
  arg_save :: bool
  arg_save_log :: bool
  arg_country :: string
  arg_gender :: string
  arg_format :: string
  arg_count :: int
  arg_fields :: "string list option"
  arg_no_preview :: bool
  arg_min_age :: int
  arg_max_age :: int
  arg_use_temp_email :: bool
  arg_manual_email :: "string option"
  arg_encrypt :: "string option"

record inbox_args =
  arg_token :: string
  arg_code_pattern :: string
  arg_link_pattern :: string
  arg_poll_attempts :: int
  arg_poll_interval :: real

datatype command =
    Blank
  | Stop
  | Clean
  | Generate "args option"
  | Check_inbox "inbox_args option"
  | Unknown string

definition all_valid :: "string list" where
  "all_valid = [''first_name'', ''last_name'', ''full_name'', ''email'', ''phone'', ''address'',
                ''username'', ''birthdate'', ''password'', ''created'', ''email_token'',
                ''address_street'', ''address_city'', ''address_state'', ''address_country'']"

text \<open>\<^verbatim>\<open>repr\<close> of a list of plain strings.\<close>

fun join_with :: "string \<Rightarrow> string list \<Rightarrow> string" where
  "join_with sep [] = []"
| "join_with sep [x] = x"
| "join_with sep (x # y # zs) = x @ sep @ join_with sep (y # zs)"

definition repr_list :: "string list \<Rightarrow> string" where
  "repr_list xs = ''['' @ join_with '', '' (map (\<lambda>x. [CHR 0x27] @ x @ [CHR 0x27]) xs) @ '']''"

text \<open>The message of an exception is not modelled; the name of its class stands for
  \<^verbatim>\<open>str(e)\<close>.\<close>

definition error_text :: "py_error \<Rightarrow> string" where
  "error_text e =
     (case e of IndexError \<Rightarrow> ''IndexError'' | KeyError \<Rightarrow> ''KeyError''
      | ValueError \<Rightarrow> ''ValueError'' | TypeError \<Rightarrow> ''TypeError''
      | RequestError \<Rightarrow> ''RequestException'')"

text \<open>The loop over the identities when \<^verbatim>\<open>--no-preview\<close> is given.\<close>

fun display_all :: "identity list \<Rightarrow> world \<Rightarrow> world" where
  "display_all [] w = w"
| "display_all (identity # identities) w =
     (let w = display_identity identity w;
          w = (case map_of identity ''email_token'' of
                 Some token \<Rightarrow> emit (Print (inbox_hint (pyval_text token))) w
               | None \<Rightarrow> w)
      in display_all identities w)"

text \<open>The loop over \<^verbatim>\<open>enumerate(identities)\<close> when \<^verbatim>\<open>--save-log\<close> is given; \<open>len\<close>
  is \<^verbatim>\<open>len(identities)\<close>.\<close>

fun save_logs :: "nat \<Rightarrow> nat \<Rightarrow> identity list \<Rightarrow> world \<Rightarrow> world" where
  "save_logs len i [] w = w"
| "save_logs len i (identity # identities) w =
     (let (t, w) = now w;
          log_filename =
            (if len > 1 then ''identity_details_'' @ strftime_stamp t @ ''_'' @ str_nat (i + 1) @ ''.log''
             else ''identity_details_'' @ strftime_stamp t @ ''.log'')
      in save_logs len (i + 1) identities (save_identity_log identity log_filename w))"

text \<open>The \<^verbatim>\<open>generate\<close> branch of the loop body. Every path through it ends the
  iteration and goes on with the next command.\<close>

definition main_generate :: "generator \<Rightarrow> library \<Rightarrow> args option \<Rightarrow> world \<Rightarrow> world" where
  "main_generate g lib parsed w =
     (case parsed of
        None \<Rightarrow> emit (Print ''Error: Invalid arguments.'') w
      | Some a \<Rightarrow>
          if arg_count a < 1 then emit (Print ''Error: Count must be positive'') w
          else if arg_min_age a < 0 \<or> arg_max_age a < arg_min_age a \<or> arg_max_age a > 120 then
            emit (Print ''Error: Invalid age range (min_age >=0, min_age <= max_age <=120)'') w
          else if arg_use_temp_email a \<and> truthy (arg_manual_email a) then
            emit (Print ''Error: Cannot use both --use-temp-email and --manual-email'') w
          else if truthy (arg_encrypt a) \<and> arg_format a = ''csv'' then
            emit (Print ''Error: Encryption is not supported for CSV format'') w
          else
            let (fields0, w) =
                  (case arg_fields a of
                     None \<Rightarrow> (None, w)
                   | Some fs \<Rightarrow>
                       if fs \<noteq> [] \<and> \<not> list_all (\<lambda>field. field \<in> set all_valid) fs then
                         (None, emit (Print (''Warning: Invalid fields specified. Valid fields: ''
                                               @ repr_list all_valid)) w)
                       else (Some fs, w)) in
            (case generate_batch_identities g lib (arg_count a) (arg_country a) (arg_gender a)
                    (arg_save a) fields0 (arg_format a) (\<not> arg_no_preview a) (arg_min_age a)
                    (arg_max_age a) (arg_use_temp_email a) (arg_manual_email a) (arg_encrypt a) w of
               (Inl e, w) \<Rightarrow> emit (Print (''Error: '' @ error_text e)) w
             | (Inr identities, w) \<Rightarrow>
                 let w = (if arg_no_preview a then display_all identities w else w) in
                 if arg_save_log a then save_logs (length identities) 0 identities w else w))"

definition main_check_inbox :: "generator \<Rightarrow> library \<Rightarrow> inbox_args option \<Rightarrow> world \<Rightarrow> world" where
  "main_check_inbox g lib parsed w =
     (case parsed of
        None \<Rightarrow> emit (Print ''Error: Invalid arguments.'') w
      | Some a \<Rightarrow>
          if arg_poll_attempts a < 1 then emit (Print ''Error: Poll attempts must be positive'') w
          else if arg_poll_interval a \<le> 0 then
            emit (Print ''Error: Poll interval must be positive'') w
          else
            (case check_inbox (re_search lib) (arg_token a) (arg_code_pattern a)
                    (arg_link_pattern a) (arg_poll_attempts a) (arg_poll_interval a) w of
               (Inl e, w) \<Rightarrow> emit (Print (''Error: '' @ error_text e)) w
             | (Inr (code, link), w) \<Rightarrow>
                 if truthy code then
                   emit (Print (''Retrieved Verification Code: '' @ the code)) w
                 else if truthy link then
                   emit (Print ''Please open the link in a browser to confirm.'')
                     (emit (Print (''Retrieved Confirmation Link: '' @ the link)) w)
                 else emit (Print ''No verification code or link found after polling.'') w))"

text \<open>The plain banner, printed when the optional packages for colours and large
  letters are not installed.\<close>

definition print_banner :: "world \<Rightarrow> world" where
  "print_banner w =
     emit (Print ''github: https://github.com/Muyu-G'')
       (emit (Print ''by: MuyuG'')
          (emit (Print (newline @ ''TEMPORARY IDENTITY GENERATOR'' @ newline
                        @ ''=========================='' @ newline
                        @ ''Temporary Identity Generator for Testing'' @ newline)) w))"

definition show_menu :: "world \<Rightarrow> world" where
  "show_menu w =
     emit (Print ''  stop      - Quit the program'')
       (emit (Print ''  clean     - Clear recent command output'')
          (emit (Print ''  check-inbox - Check email inbox for verification code or link'')
             (emit (Print ''  generate  - Generate identities with specified parameters'')
                (emit (Print (newline @ ''Available Commands:'')) w))))"

text \<open>The \<^verbatim>\<open>while True\<close> loop of \<^verbatim>\<open>main\<close>, over the commands that \<^verbatim>\<open>input\<close> will
  return; it ends at \<^verbatim>\<open>stop\<close>, or when the input does.\<close>

fun main_loop :: "generator \<Rightarrow> library \<Rightarrow> command list \<Rightarrow> world \<Rightarrow> world" where
  "main_loop g lib [] w = w"
| "main_loop g lib (command # commands) w =
     (let w = show_menu w in
      case command of
        Blank \<Rightarrow> main_loop g lib commands w
      | Stop \<Rightarrow> emit (Print ''Exiting program.'') w
      | Clean \<Rightarrow> main_loop g lib commands (print_banner w)
      | Generate parsed \<Rightarrow> main_loop g lib commands (main_generate g lib parsed w)
      | Check_inbox parsed \<Rightarrow> main_loop g lib commands (main_check_inbox g lib parsed w)
      | Unknown name \<Rightarrow> main_loop g lib commands (emit (Print (''Unknown command: '' @ name @ ''.'')) w))"

text \<open>\<^verbatim>\<open>main\<close>, after it has built the generator \<open>g\<close> from the configuration.\<close>

definition main :: "generator \<Rightarrow> library \<Rightarrow> command list \<Rightarrow> world \<Rightarrow> world" where
  "main g lib commands w = main_loop g lib commands (print_banner w)"

section \<open>Loading the configuration\<close>

text \<open>
  A value that \<^verbatim>\<open>json.load\<close> returns (a dict holds each key once), and the three ways
  in which reading a configuration file can go: \<^verbatim>\<open>open\<close> raises
  \<^verbatim>\<open>FileNotFoundError\<close>, \<^verbatim>\<open>json.load\<close> raises \<^verbatim>\<open>JSONDecodeError\<close>, or a value is
  loaded.
\<close>

datatype json =
    JNull
  | JBool bool
  | JNum int
  | JStr string
  | JList "json list"
  | JDict "(string \<times> json) list"

datatype config_file = Missing | Invalid_json | Loaded json

record config_dir =
  first_names_file :: config_file
  last_names_file :: config_file
  domains_file :: config_file
  streets_file :: config_file
  addresses_file :: config_file
  phone_formats_file :: config_file

text \<open>The six attributes that \<^verbatim>\<open>__init__\<close> sets, as the values they hold.\<close>

record raw_generator =
  raw_first_names :: json
  raw_last_names :: json
  raw_domains :: json
  raw_streets :: json
  raw_addresses :: json
  raw_phone_formats :: json

definition json_table :: "(string \<times> string list) list \<Rightarrow> json" where
  "json_table kvs = JDict (map (\<lambda>(k, vs). (k, JList (map JStr vs))) kvs)"

definition default_raw :: raw_generator where
  "default_raw = \<lparr>
     raw_first_names = json_table [(''male'', [''John'', ''Michael'']),
                                   (''female'', [''Mary'', ''Sarah'']),
                                   (''neutral'', [''Alex'', ''Taylor''])],
     raw_last_names = json_table [(''US'', [''Smith'', ''Johnson''])],
     raw_domains = JList [JStr ''example.com'', JStr ''test.org''],
     raw_streets = json_table [(''US'', [''Main St'', ''Elm St'']),
                               (''in'', [''MG Road'', ''Park Ave''])],
     raw_addresses = json_table [(''CA'', [''San Francisco'', ''Los Angeles'']),
                                 (''NY'', [''New York'', ''Albany'']),
                                 (''MH'', [''Mumbai'', ''Pune''])],
     raw_phone_formats = JDict [(''US'', JStr ''+1-###-###-####''),
                                (''in'', JStr ''+91-#####-#####'')]\<rparr>"

text \<open>\<^verbatim>\<open>needle in haystack\<close> for two strings.\<close>

fun contains :: "string \<Rightarrow> string \<Rightarrow> bool" where
  "contains needle [] = (needle = [])"
| "contains needle (c # cs) = (take (length needle) (c # cs) = needle \<or> contains needle cs)"

text \<open>\<^verbatim>\<open>key in value\<close> for a string key: membership in a dict's keys or in a list, the
  substring test on a string, and \<^verbatim>\<open>TypeError\<close> on a number, a boolean or
  \<^verbatim>\<open>None\<close>.\<close>

definition py_in :: "string \<Rightarrow> json \<Rightarrow> py_error + bool" where
  "py_in key j =
     (case j of
        JDict kvs \<Rightarrow> Inr (key \<in> set (map fst kvs))
      | JList xs \<Rightarrow> Inr (JStr key \<in> set xs)
      | JStr s \<Rightarrow> Inr (contains key s)
      | _ \<Rightarrow> Inl TypeError)"

text \<open>\<^verbatim>\<open>all(key in value for key in keys)\<close>, which stops at the first key that is
  missing.\<close>

fun all_in :: "string list \<Rightarrow> json \<Rightarrow> py_error + bool" where
  "all_in [] j = Inr True"
| "all_in (key # keys) j =
     (case py_in key j of
        Inl e \<Rightarrow> Inl e
      | Inr found \<Rightarrow> if found then all_in keys j else Inr False)"

definition is_list :: "json \<Rightarrow> bool" where
  "is_list j = (case j of JList _ \<Rightarrow> True | _ \<Rightarrow> False)"

definition is_str :: "json \<Rightarrow> bool" where
  "is_str j = (case j of JStr _ \<Rightarrow> True | _ \<Rightarrow> False)"

text \<open>\<^verbatim>\<open>isinstance(value, dict) and all(isinstance(v, list) for v in value.values())\<close>, and
  the same with \<^verbatim>\<open>str\<close>.\<close>

definition dict_of_lists :: "json \<Rightarrow> bool" where
  "dict_of_lists j = (case j of JDict kvs \<Rightarrow> list_all (\<lambda>(k, v). is_list v) kvs | _ \<Rightarrow> False)"

definition dict_of_strs :: "json \<Rightarrow> bool" where
  "dict_of_strs j = (case j of JDict kvs \<Rightarrow> list_all (\<lambda>(k, v). is_str v) kvs | _ \<Rightarrow> False)"

text \<open>A warning goes to the console and to the log, with two wordings.\<close>

definition warn :: "string \<Rightarrow> string \<Rightarrow> world \<Rightarrow> world" where
  "warn printed logged w = emit (Log logged) (emit (Print (''Warning: '' @ printed)) w)"

text \<open>
  How far the \<^verbatim>\<open>try\<close> block of \<^verbatim>\<open>__init__\<close> has come: it goes on with the next
  file, it was left through one of the two \<^verbatim>\<open>except\<close> clauses, or it raised an
  exception that no clause catches.
\<close>

datatype load_outcome = Next raw_generator | Stopped raw_generator | Uncaught py_error

text \<open>
  One \<^verbatim>\<open>with open(...)\<close> block: the loaded value is assigned to the attribute first and
  checked afterwards; a failed check prints and logs a warning, and nothing else. The
  text of a \<^verbatim>\<open>JSONDecodeError\<close> is left out of the warning.
\<close>

definition load_table ::
  "string \<Rightarrow> config_file \<Rightarrow> (json \<Rightarrow> raw_generator \<Rightarrow> raw_generator) \<Rightarrow> (json \<Rightarrow> py_error + bool)
     \<Rightarrow> string \<Rightarrow> raw_generator \<Rightarrow> world \<Rightarrow> load_outcome \<times> world" where
  "load_table name file assign valid complaint self w =
     (case file of
        Missing \<Rightarrow>
          (Stopped self,
           warn (''Configuration file config/'' @ name @ '' not found, using fallbacks.'')
                (''Configuration file config/'' @ name @ '' not found, using fallbacks'') w)
      | Invalid_json \<Rightarrow>
          (Stopped self,
           warn ''Configuration file is invalid JSON, using fallbacks.''
                ''Configuration file is invalid JSON, using fallbacks'' w)
      | Loaded j \<Rightarrow>
          (let self = assign j self in
           case valid j of
             Inl e \<Rightarrow> (Uncaught e, w)
           | Inr ok \<Rightarrow>
               (Next self,
                if ok then w
                else warn (name @ '' '' @ complaint @ '', using fallbacks.'')
                          (name @ '' validation failed, using fallbacks'') w)))"

definition then_load ::
  "load_outcome \<times> world \<Rightarrow> (raw_generator \<Rightarrow> world \<Rightarrow> load_outcome \<times> world)
     \<Rightarrow> load_outcome \<times> world" where
  "then_load m f = (case m of (Next self, w) \<Rightarrow> f self w | other \<Rightarrow> other)"

text \<open>\<^verbatim>\<open>TemporaryIdentityGenerator.__init__\<close>: the attributes after it, or the exception
  that leaves it.\<close>

definition init :: "config_dir \<Rightarrow> world \<Rightarrow> raw_generator result" where
  "init dir w =
     (case
        then_load (then_load (then_load (then_load (then_load
          (load_table ''first_names.json'' (first_names_file dir)
             (\<lambda>j self. self\<lparr>raw_first_names := j\<rparr>)
             (all_in [''male'', ''female'', ''neutral'']) ''missing required keys'' default_raw w)
          (load_table ''last_names.json'' (last_names_file dir)
             (\<lambda>j self. self\<lparr>raw_last_names := j\<rparr>)
             (\<lambda>j. Inr (dict_of_lists j)) ''has invalid format''))
          (load_table ''domains.json'' (domains_file dir)
             (\<lambda>j self. self\<lparr>raw_domains := j\<rparr>)
             (\<lambda>j. Inr (is_list j)) ''has invalid format''))
          (load_table ''streets.json'' (streets_file dir)
             (\<lambda>j self. self\<lparr>raw_streets := j\<rparr>)
             (\<lambda>j. Inr (dict_of_lists j)) ''has invalid format''))
          (load_table ''addresses.json'' (addresses_file dir)
             (\<lambda>j self. self\<lparr>raw_addresses := j\<rparr>)
             (\<lambda>j. Inr (dict_of_lists j)) ''has invalid format''))
          (load_table ''phone_formats.json'' (phone_formats_file dir)
             (\<lambda>j self. self\<lparr>raw_phone_formats := j\<rparr>)
             (\<lambda>j. Inr (dict_of_strs j)) ''has invalid format'')
      of
        (Next self, w) \<Rightarrow> (Inr self, w)
      | (Stopped self, w) \<Rightarrow> (Inr self, w)
      | (Uncaught e, w) \<Rightarrow> (Inl e, w))"

subsection \<open>Tables of the expected shape\<close>

text \<open>
  The generators above are modelled on tables of the shape of the built-in ones. These
  functions read such tables out of the loaded values; they give \<open>None\<close> for a value of
  another shape.
\<close>

definition str_list_of :: "json \<Rightarrow> string list option" where
  "str_list_of j =
     (case j of
        JList xs \<Rightarrow> if list_all is_str xs
                    then Some (map (\<lambda>x. case x of JStr s \<Rightarrow> s | _ \<Rightarrow> []) xs) else None
      | _ \<Rightarrow> None)"

definition table_of :: "json \<Rightarrow> (string \<rightharpoonup> string list) option" where
  "table_of j =
     (case j of
        JDict kvs \<Rightarrow>
          if list_all (\<lambda>(k, v). str_list_of v \<noteq> None) kvs
          then Some (map_of (map (\<lambda>(k, v). (k, the (str_list_of v))) kvs)) else None
      | _ \<Rightarrow> None)"

definition formats_of :: "json \<Rightarrow> (string \<rightharpoonup> string) option" where
  "formats_of j =
     (case j of
        JDict kvs \<Rightarrow>
          if list_all (\<lambda>(k, v). is_str v) kvs
          then Some (map_of (map (\<lambda>(k, v). (k, case v of JStr s \<Rightarrow> s | _ \<Rightarrow> [])) kvs)) else None
      | _ \<Rightarrow> None)"

definition well_formed :: "raw_generator \<Rightarrow> generator option" where
  "well_formed self =
     (case (table_of (raw_first_names self), table_of (raw_last_names self),
            str_list_of (raw_domains self), table_of (raw_streets self),
            table_of (raw_addresses self), formats_of (raw_phone_formats self)) of
        (Some firsts, Some lasts, Some doms, Some strs, Some addrs, Some fmts) \<Rightarrow>
          Some \<lparr>state_maps = state_maps default_generator, first_names = firsts,
                last_names = lasts, domains = doms, streets = strs, addresses = addrs,
                phone_formats = fmts\<rparr>
      | _ \<Rightarrow> None)"

section \<open>Reading a trace\<close>

text \<open>The number of provisioning attempts in a trace: each attempt starts by asking the
  service for its domains.\<close>

definition attempts_made :: "event list \<Rightarrow> nat" where
  "attempts_made tr = length (filter (\<lambda>e. e = Http_get ''https://api.mail.tm/domains'') tr)"

text \<open>The part of a trace that shows the retry policy of \<^verbatim>\<open>generate_temp_email\<close>: the
  logged failures of attempts and the sleeps.\<close>

fun is_retry_event :: "event \<Rightarrow> bool" where
  "is_retry_event (Sleep s) = True"
| "is_retry_event (Log m) = (take 16 m = ''Mail.tm attempt '')"
| "is_retry_event _ = False"

definition retry_events :: "event list \<Rightarrow> event list" where
  "retry_events tr = filter is_retry_event tr"

definition attempt_failed :: "nat \<Rightarrow> event" where
  "attempt_failed k = Log (''Mail.tm attempt '' @ str_nat k @ '' failed'')"

text \<open>What the retry policy leaves in a trace when the first \<open>k\<close> attempts fail and
  another attempt follows: after the failure of attempt \<open>a\<close> a sleep of \<open>2 ^ a\<close> seconds.\<close>

definition backoff_schedule :: "nat \<Rightarrow> event list" where
  "backoff_schedule k =
     concat (map (\<lambda>attempt. [attempt_failed (attempt + 1), Sleep (2 ^ attempt)]) [0..<k])"

section \<open>Sample environments\<close>

text \<open>An environment with the given entropy, a fixed clock, an unreachable mail service,
  no files and an empty trace.\<close>

definition quiet_world :: "(nat \<Rightarrow> nat) \<Rightarrow> world" where
  "quiet_world e = \<lparr>entropy = e, drawn = 0,
     clock = (\<lambda>i. \<lparr>year = 2026, month = 11, day = 3, hour = 9, minute = 5, second = 7\<rparr>),
     ticks = 0,
     get_domains = (\<lambda>i. Failure), post_accounts = (\<lambda>i. Failure), post_token = (\<lambda>i. Failure),
     get_messages = (\<lambda>i. Failure), get_message = (\<lambda>i. Failure), requests = 0,
     files = Map.empty, trace = []\<rparr>"


text \<open>Stand-ins for the library functions, and a \<^verbatim>\<open>generate\<close> command with the
  defaults of its options.\<close>

definition plain_library :: library where
  "plain_library = \<lparr>
     json_dumps = (\<lambda>identities. concat (map identity_log_text identities)),
     yaml_dump = (\<lambda>identities. concat (map identity_log_text identities)),
     pbkdf2_hmac_sha256 = (\<lambda>password salt iterations len. take len (password @ salt)),
     urlsafe_b64encode = (\<lambda>bytes. bytes),
     fernet_encrypt = (\<lambda>key iv t data. key @ '':'' @ data),
     re_search = default_search\<rparr>"

definition default_args :: args where
  "default_args = \<lparr>arg_save = False, arg_save_log = False, arg_country = ''US'',
     arg_gender = ''any'', arg_format = ''json'', arg_count = 1, arg_fields = None,
     arg_no_preview = False, arg_min_age = 18, arg_max_age = 65, arg_use_temp_email = False,
     arg_manual_email = None, arg_encrypt = None\<rparr>"

text \<open>A configuration directory whose six files hold well-formed tables that differ from
  the built-in ones.\<close>

definition custom_dir :: config_dir where
  "custom_dir = \<lparr>
     first_names_file = Loaded (json_table [(''male'', [''Arjun'']), (''female'', [''Priya'']),
                                            (''neutral'', [''Kiran''])]),
     last_names_file = Loaded (json_table [(''US'', [''Miller'']), (''in'', [''Patel''])]),
     domains_file = Loaded (JList [JStr ''mail.example'']),
     streets_file = Loaded (json_table [(''US'', [''Oak St'']), (''in'', [''Lake Road''])]),
     addresses_file = Loaded (json_table [(''CA'', [''Fresno'']), (''TX'', [''Austin''])]),
     phone_formats_file = Loaded (JDict [(''US'', JStr ''+1 (###) ###-####'')])\<rparr>"

section \<open>Properties of the generators\<close>

subsection \<open>Successful steps\<close>

lemma and_then_Inr:
  "and_then m f = (Inr y, w') \<longleftrightarrow> (\<exists>x w1. m = (Inr x, w1) \<and> f x w1 = (Inr y, w'))"
  by (cases m; cases "fst m") (auto simp: and_then_def)




subsection \<open>Decimal strings\<close>





lemmas eval_simps =
  and_then_def choice_def randbelow_def get_or_def now_def emit_def
  str_int_def str_nat.simps digit_char_def digits_def pad2_def
  lower_def lower_char_def ascii_uppercase_def ascii_lowercase_def
  default_generator_def quiet_world_def

subsection \<open>Addresses\<close>




text \<open>With the built-in tables \<open>generate_address\<close> returns an address for every
  country and every environment.\<close>

lemma generate_address_default_total:
  "\<exists>a w'. generate_address default_generator c w = (Inr a, w')"
proof -
  have m3: "nat (int n mod 3) < 3" and m2: "nat (int n mod 2) < 2" for n by simp_all
  have three: "i < 3 \<Longrightarrow> i = 0 \<or> i = 1 \<or> i = 2" for i :: nat by arith
  have two: "i < 2 \<Longrightarrow> i = 0 \<or> i = 1" for i :: nat by arith
  show ?thesis
    using three [OF m3 [of "entropy w (drawn w)"]]
    by (auto simp: generate_address_def and_then_def choice_def randbelow_def get_or_def
        default_generator_def Let_def dom_def)
qed

subsection \<open>Birth dates\<close>

text \<open>
  Claim C8: for age bounds with \<open>0 \<le> min_age \<le> max_age \<le> 120\<close>, \<open>generate_birthdate\<close>
  returns the date string built from a year between the current year minus \<open>max_age\<close>
  and the current year minus \<open>min_age\<close>, a month between 1 and 12 and a day between 1
  and 28.
\<close>

theorem generate_birthdate_range:
  assumes "0 \<le> min_age" and "min_age \<le> max_age" and "max_age \<le> 120"
  shows "\<exists>y m d w'. birthdate_parts min_age max_age w = (Inr (y, m, d), w')
           \<and> generate_birthdate min_age max_age w
               = (Inr (str_int y @ ''-'' @ pad2 (nat m) @ ''-'' @ pad2 (nat d)), w')
           \<and> year (clock w (ticks w)) - max_age \<le> y \<and> y \<le> year (clock w (ticks w)) - min_age
           \<and> 1 \<le> m \<and> m \<le> 12 \<and> 1 \<le> d \<and> d \<le> 28"
proof -
  let ?cy = "year (clock w (ticks w))"
  let ?w1 = "w\<lparr>ticks := ticks w + 1\<rparr>"
  let ?y = "int (entropy w (drawn w)) mod (max_age - min_age + 1) + (?cy - max_age)"
  let ?m = "int (entropy w (drawn w + 1)) mod 12 + 1"
  let ?d = "int (entropy w (drawn w + 2)) mod 28 + 1"
  have span: "0 < max_age - min_age + 1" using assms by simp
  have parts: "birthdate_parts min_age max_age w = (Inr (?y, ?m, ?d), ?w1\<lparr>drawn := drawn w + 3\<rparr>)"
    using span by (simp add: birthdate_parts_def now_def randbelow_def and_then_def Let_def algebra_simps)
  have str: "generate_birthdate min_age max_age w
               = (Inr (str_int ?y @ ''-'' @ pad2 (nat ?m) @ ''-'' @ pad2 (nat ?d)), ?w1\<lparr>drawn := drawn w + 3\<rparr>)"
    unfolding generate_birthdate_def parts by (simp add: and_then_def)
  have "0 \<le> int (entropy w (drawn w)) mod (max_age - min_age + 1)"
    and "int (entropy w (drawn w)) mod (max_age - min_age + 1) < max_age - min_age + 1"
    using span by (rule pos_mod_sign, rule pos_mod_bound)
  then have "?cy - max_age \<le> ?y" and "?y \<le> ?cy - min_age" by linarith+
  moreover have "1 \<le> ?m" "?m \<le> 12" "1 \<le> ?d" "?d \<le> 28" by simp_all
  ultimately show ?thesis using parts str by blast
qed

theorem generate_birthdate_range_witness:
  "(0::int) \<le> 18 \<and> (18::int) \<le> 65 \<and> (65::int) \<le> 120
   \<and> fst (generate_birthdate 18 65 (quiet_world (\<lambda>i. 100 + i))) = Inr ''1965-06-19''
   \<and> (\<exists>y m d w'. birthdate_parts 18 65 (quiet_world (\<lambda>i. 100 + i)) = (Inr (y, m, d), w')
         \<and> 2026 - 65 \<le> y \<and> y \<le> 2026 - 18 \<and> 1 \<le> m \<and> m \<le> 12 \<and> 1 \<le> d \<and> d \<le> 28)"
proof -
  have run: "fst (generate_birthdate 18 65 (quiet_world (\<lambda>i. 100 + i))) = Inr ''1965-06-19''"
    by (simp add: generate_birthdate_def birthdate_parts_def eval_simps)
  have "\<exists>y m d w'. birthdate_parts 18 65 (quiet_world (\<lambda>i. 100 + i)) = (Inr (y, m, d), w')
         \<and> 2026 - 65 \<le> y \<and> y \<le> 2026 - 18 \<and> 1 \<le> m \<and> m \<le> 12 \<and> 1 \<le> d \<and> d \<le> 28"
    using generate_birthdate_range [of 18 65 "quiet_world (\<lambda>i. 100 + i)"]
    by (simp add: quiet_world_def) blast
  with run show ?thesis by simp
qed

subsection \<open>Email addresses\<close>




section \<open>The provisioning retry policy\<close>

lemma and_then_Inr_simp: "and_then (Inr x, w) f = f x w"
  by (simp add: and_then_def)

lemma and_then_Inl_simp: "and_then (Inl e, w) f = (Inl e, w)"
  by (simp add: and_then_def)

lemma choice_nonempty:
  "xs \<noteq> [] \<Longrightarrow> \<exists>x. choice xs w = (Inr x, w\<lparr>drawn := drawn w + 1\<rparr>) \<and> x \<in> set xs"
  by (simp add: choice_def randbelow_def and_then_def nat_mod_distrib zmod_int [symmetric])

lemma choices_nonempty:
  "xs \<noteq> [] \<Longrightarrow> \<exists>cs. choices n xs w = (Inr cs, w\<lparr>drawn := drawn w + n\<rparr>) \<and> length cs = n"
proof (induction n arbitrary: w)
  case 0
  then show ?case by simp
next
  case (Suc n)
  let ?w1 = "w\<lparr>drawn := drawn w + 1\<rparr>"
  from Suc obtain cs where "choices n xs ?w1 = (Inr cs, ?w1\<lparr>drawn := drawn ?w1 + n\<rparr>)" "length cs = n"
    by blast
  with Suc.prems show ?case
    by (simp add: choice_def randbelow_def and_then_def)
qed

lemma request_result:
  "\<exists>x. request ev oracle w = (x, (emit ev w)\<lparr>requests := requests w + 1\<rparr>)
       \<and> (x = Inl RequestError \<or> (\<exists>r. x = Inr r))"
  by (cases "oracle w (requests w)") (simp_all add: request_def Let_def)

lemma retry_events_append [simp]: "retry_events (a @ b) = retry_events a @ retry_events b"
  by (simp add: retry_events_def)

lemma attempts_made_append [simp]: "attempts_made (a @ b) = attempts_made a + attempts_made b"
  by (simp add: attempts_made_def)

lemma temp_email_attempt_cases:
  "\<exists>x w1 evs. temp_email_attempt w = (x, w1) \<and> trace w1 = trace w @ evs
      \<and> retry_events evs = [] \<and> attempts_made evs = 1
      \<and> (x = Inl RequestError \<or> x = Inr No_domains \<or> (\<exists>email token. x = Inr (Created email token)))"
proof -
  let ?get = "Http_get ''https://api.mail.tm/domains''"
  let ?acc = "Http_post ''https://api.mail.tm/accounts''"
  let ?tok = "Http_post ''https://api.mail.tm/token''"
  let ?w1 = "(emit ?get w)\<lparr>requests := requests w + 1\<rparr>"
  have ev [simp]: "retry_events [?get] = []" "retry_events [?get, ?acc] = []"
    "retry_events [?get, ?acc, ?tok] = []" "attempts_made [?get] = 1"
    "attempts_made [?get, ?acc] = 1" "attempts_made [?get, ?acc, ?tok] = 1"
    by (simp_all add: retry_events_def attempts_made_def)
  from request_result [of ?get get_domains w] obtain x1
    where eq1: "request ?get get_domains w = (x1, ?w1)"
      and x1: "x1 = Inl RequestError \<or> (\<exists>r. x1 = Inr r)" by blast
  from x1 show ?thesis
  proof
    assume "x1 = Inl RequestError"
    with eq1 have "temp_email_attempt w = (Inl RequestError, ?w1)"
      by (simp only: temp_email_attempt_def and_then_Inl_simp)
    then show ?thesis by (simp add: emit_def)
  next
    assume "\<exists>r. x1 = Inr r"
    then obtain doms where doms: "x1 = Inr doms" ..
    show ?thesis
    proof (cases "doms = []")
      case True
      with eq1 doms have "temp_email_attempt w
          = (Inr No_domains, emit (Log ''No domains available from Mail.tm'') ?w1)"
        by (simp only: temp_email_attempt_def and_then_Inr_simp if_True simp_thms)
      then show ?thesis by (simp add: emit_def retry_events_def attempts_made_def)
    next
      case False
      let ?w2 = "?w1\<lparr>drawn := drawn ?w1 + 1\<rparr>"
      let ?w3 = "?w2\<lparr>drawn := drawn ?w2 + 10\<rparr>"
      let ?w4 = "?w3\<lparr>drawn := drawn ?w3 + 12\<rparr>"
      let ?w5 = "(emit ?acc ?w4)\<lparr>requests := requests ?w4 + 1\<rparr>"
      let ?w6 = "(emit ?tok ?w5)\<lparr>requests := requests ?w5 + 1\<rparr>"
      from choice_nonempty [OF False, of ?w1] obtain d
        where d: "choice doms ?w1 = (Inr d, ?w2)" by blast
      have ne10: "ascii_lowercase @ digits \<noteq> []" by (simp add: digits_def)
      have ne12: "ascii_lowercase @ ascii_uppercase @ digits @ punctuation \<noteq> []"
        by (simp add: digits_def)
      from choices_nonempty [OF ne10, of 10 ?w2] obtain u
        where u: "choices 10 (ascii_lowercase @ digits) ?w2 = (Inr u, ?w3)" by blast
      from choices_nonempty [OF ne12, of 12 ?w3] obtain p
        where p: "choices 12 (ascii_lowercase @ ascii_uppercase @ digits @ punctuation) ?w3
                    = (Inr p, ?w4)" by blast
      from request_result [of ?acc post_accounts ?w4] obtain x5
        where eq5: "request ?acc post_accounts ?w4 = (x5, ?w5)"
          and x5: "x5 = Inl RequestError \<or> (\<exists>r. x5 = Inr r)" by blast
      from request_result [of ?tok post_token ?w5] obtain x6
        where eq6: "request ?tok post_token ?w5 = (x6, ?w6)"
          and x6: "x6 = Inl RequestError \<or> (\<exists>r. x6 = Inr r)" by blast
      have start: "temp_email_attempt w =
         and_then (request ?acc post_accounts ?w4) (\<lambda>_ w.
         and_then (request ?tok post_token w) (\<lambda>token w.
         (Inr (Created (u @ ''@'' @ d) token),
          emit (Log (''Created Mail.tm account: '' @ (u @ ''@'' @ d))) w)))"
        using False
        by (simp only: temp_email_attempt_def eq1 doms and_then_Inr_simp if_False d u p Let_def)
      from x5 show ?thesis
      proof
        assume "x5 = Inl RequestError"
        then have "temp_email_attempt w = (Inl RequestError, ?w5)"
          by (simp only: start eq5 and_then_Inl_simp)
        then show ?thesis by (simp add: emit_def)
      next
        assume "\<exists>r. x5 = Inr r"
        then obtain a where a: "x5 = Inr a" ..
        from x6 show ?thesis
        proof
          assume "x6 = Inl RequestError"
          then have "temp_email_attempt w = (Inl RequestError, ?w6)"
            by (simp only: start eq5 a eq6 and_then_Inl_simp and_then_Inr_simp)
          then show ?thesis by (simp add: emit_def)
        next
          assume "\<exists>r. x6 = Inr r"
          then obtain t where t: "x6 = Inr t" ..
          have "temp_email_attempt w = (Inr (Created (u @ ''@'' @ d) t),
                  emit (Log (''Created Mail.tm account: '' @ (u @ ''@'' @ d))) ?w6)"
            by (simp only: start eq5 a eq6 t and_then_Inr_simp)
          then show ?thesis by (simp add: emit_def retry_events_def attempts_made_def)
        qed
      qed
    qed
  qed
qed


lemma is_retry_attempt_failed [simp]: "is_retry_event (attempt_failed k)"
  by (simp add: attempt_failed_def)

lemma give_up_result:
  "give_up n w = (Inr (None, None), w\<lparr>trace := trace w @ [Print (''Failed to create Mail.tm account after '' @ str_nat n @ '' attempts.'')]\<rparr>)"
  by (simp add: give_up_def emit_def)

lemma upt3: "[0..<3] = [0, 1, 2::nat]"
  by (simp add: upt_rec)

lemma sched: "backoff_schedule 0 = []" "backoff_schedule 1 = [attempt_failed 1, Sleep 1]"
  "backoff_schedule 2 = [attempt_failed 1, Sleep 1, attempt_failed 2, Sleep 2]"
  by (simp_all add: backoff_schedule_def upt_rec numeral_2_eq_2)

lemma loop_last:
  "\<exists>r w' evs. temp_email_loop 3 [2] w = (Inr r, w') \<and> trace w' = trace w @ evs
     \<and> attempts_made evs = 1
     \<and> (retry_events evs = [] \<and> (r = (None, None) \<or> (\<exists>e t. r = (Some e, t)))
        \<or> retry_events evs = [attempt_failed 3] \<and> r = (None, None))"
proof -
  from temp_email_attempt_cases [of w] obtain x w1 evs where
    run: "temp_email_attempt w = (x, w1)" and tr: "trace w1 = trace w @ evs"
    and ev: "retry_events evs = []" "attempts_made evs = 1"
    and x: "x = Inl RequestError \<or> x = Inr No_domains \<or> (\<exists>email token. x = Inr (Created email token))"
    by blast
  from x consider (fail) "x = Inl RequestError" | (none) "x = Inr No_domains"
    | (created) email token where "x = Inr (Created email token)" by blast
  then show ?thesis
  proof cases
    case fail
    with run tr ev show ?thesis
      by (simp add: give_up_def emit_def attempt_failed_def retry_events_def attempts_made_def)
  next
    case none
    with run tr ev show ?thesis
      by (simp add: give_up_def emit_def retry_events_def attempts_made_def)
  next
    case created
    with run tr ev show ?thesis by simp
  qed
qed


lemma loop_step:
  assumes "attempt < 2"
  shows "(\<exists>r w' evs. temp_email_loop 3 (attempt # rest) w = (Inr r, w') \<and> trace w' = trace w @ evs
            \<and> attempts_made evs = 1 \<and> retry_events evs = []
            \<and> (r = (None, None) \<or> (\<exists>e t. r = (Some e, t))))
       \<or> (\<exists>w3 evs. temp_email_loop 3 (attempt # rest) w = temp_email_loop 3 rest w3
            \<and> trace w3 = trace w @ evs \<and> attempts_made evs = 1
            \<and> retry_events evs = [attempt_failed (attempt + 1), Sleep (2 ^ attempt)])"
proof -
  from temp_email_attempt_cases [of w] obtain x w1 evs where
    run: "temp_email_attempt w = (x, w1)" and tr: "trace w1 = trace w @ evs"
    and ev: "retry_events evs = []" "attempts_made evs = 1"
    and x: "x = Inl RequestError \<or> x = Inr No_domains \<or> (\<exists>email token. x = Inr (Created email token))"
    by blast
  from x consider (fail) "x = Inl RequestError" | (none) "x = Inr No_domains"
    | (created) email token where "x = Inr (Created email token)" by blast
  then show ?thesis
  proof cases
    case fail
    let ?w3 = "emit (Sleep (2 ^ attempt)) (emit (attempt_failed (attempt + 1)) w1)"
    have "temp_email_loop 3 (attempt # rest) w = temp_email_loop 3 rest ?w3"
      using run fail assms by (simp add: attempt_failed_def)
    moreover have "trace ?w3 = trace w @ (evs @ [attempt_failed (attempt + 1), Sleep (2 ^ attempt)])"
      using tr by (simp add: emit_def)
    moreover have "attempts_made (evs @ [attempt_failed (attempt + 1), Sleep (2 ^ attempt)]) = 1"
      using ev by (simp add: attempts_made_def attempt_failed_def)
    moreover have "retry_events (evs @ [attempt_failed (attempt + 1), Sleep (2 ^ attempt)])
                     = [attempt_failed (attempt + 1), Sleep (2 ^ attempt)]"
      using ev by (simp add: retry_events_def)
    ultimately show ?thesis by blast
  next
    case none
    with run tr ev show ?thesis
      by (simp add: give_up_def emit_def retry_events_def attempts_made_def)
  next
    case created
    with run tr ev show ?thesis by simp
  qed
qed

lemma loop_mid:
  "\<exists>r w' evs. temp_email_loop 3 [1, 2] w = (Inr r, w') \<and> trace w' = trace w @ evs
     \<and> (attempts_made evs = 1 \<and> retry_events evs = [] \<and> (r = (None, None) \<or> (\<exists>e t. r = (Some e, t)))
        \<or> attempts_made evs = 2 \<and> retry_events evs = [attempt_failed 2, Sleep 2]
             \<and> (r = (None, None) \<or> (\<exists>e t. r = (Some e, t)))
        \<or> attempts_made evs = 2 \<and> retry_events evs = [attempt_failed 2, Sleep 2, attempt_failed 3]
             \<and> r = (None, None))"
proof -
  have "(1::nat) < 2" by simp
  from loop_step [OF this, of "[2]" w] show ?thesis
  proof
    assume "\<exists>r w' evs. temp_email_loop 3 [1, 2] w = (Inr r, w') \<and> trace w' = trace w @ evs
            \<and> attempts_made evs = 1 \<and> retry_events evs = []
            \<and> (r = (None, None) \<or> (\<exists>e t. r = (Some e, t)))"
    then show ?thesis by blast
  next
    assume "\<exists>w3 evs. temp_email_loop 3 [1, 2] w = temp_email_loop 3 [2] w3
            \<and> trace w3 = trace w @ evs \<and> attempts_made evs = 1
            \<and> retry_events evs = [attempt_failed (1 + 1), Sleep (2 ^ 1)]"
    then obtain w3 evs where eq: "temp_email_loop 3 [1, 2] w = temp_email_loop 3 [2] w3"
      and tr: "trace w3 = trace w @ evs" and am: "attempts_made evs = 1"
      and re0: "retry_events evs = [attempt_failed (1 + 1), Sleep (2 ^ 1)]" by blast
    have "(1::nat) + 1 = 2" and "(2::real) ^ (1::nat) = 2" by simp_all
    with re0 have re: "retry_events evs = [attempt_failed 2, Sleep 2]" by (simp only:)
    from loop_last [of w3] obtain r w' evs2 where
      last: "temp_email_loop 3 [2] w3 = (Inr r, w')" and tr2: "trace w' = trace w3 @ evs2"
      and am2: "attempts_made evs2 = 1"
      and c: "retry_events evs2 = [] \<and> (r = (None, None) \<or> (\<exists>e t. r = (Some e, t)))
        \<or> retry_events evs2 = [attempt_failed 3] \<and> r = (None, None)" by blast
    have "temp_email_loop 3 [1, 2] w = (Inr r, w')" using eq last by simp
    moreover have "trace w' = trace w @ (evs @ evs2)" using tr tr2 by simp
    moreover have "attempts_made (evs @ evs2) = 2" using am am2 by simp
    moreover have "retry_events (evs @ evs2) = [attempt_failed 2, Sleep 2] \<and> (r = (None, None) \<or> (\<exists>e t. r = (Some e, t)))
        \<or> retry_events (evs @ evs2) = [attempt_failed 2, Sleep 2, attempt_failed 3] \<and> r = (None, None)"
      using re c by auto
    ultimately show ?thesis by blast
  qed
qed


lemma loop_first:
  "\<exists>r w' evs k. temp_email_loop 3 [0, 1, 2] w = (Inr r, w') \<and> trace w' = trace w @ evs
     \<and> k < 3 \<and> attempts_made evs = k + 1
     \<and> (retry_events evs = backoff_schedule k \<and> (r = (None, None) \<or> (\<exists>e t. r = (Some e, t)))
        \<or> k = 2 \<and> retry_events evs = backoff_schedule 2 @ [attempt_failed 3] \<and> r = (None, None))"
proof -
  have "(0::nat) < 2" by simp
  from loop_step [OF this, of "[1, 2]" w] show ?thesis
  proof
    assume "\<exists>r w' evs. temp_email_loop 3 [0, 1, 2] w = (Inr r, w') \<and> trace w' = trace w @ evs
            \<and> attempts_made evs = 1 \<and> retry_events evs = []
            \<and> (r = (None, None) \<or> (\<exists>e t. r = (Some e, t)))"
    then obtain r w' evs where run: "temp_email_loop 3 [0, 1, 2] w = (Inr r, w')"
      "trace w' = trace w @ evs" and am: "attempts_made evs = 1" and re: "retry_events evs = []"
      and r: "r = (None, None) \<or> (\<exists>e t. r = (Some e, t))"
      by blast
    have "attempts_made evs = 0 + 1" unfolding am by simp
    moreover have "retry_events evs = backoff_schedule 0" unfolding re sched ..
    moreover have "(0::nat) < 3" by simp
    ultimately show ?thesis using run r by blast
  next
    assume "\<exists>w3 evs. temp_email_loop 3 [0, 1, 2] w = temp_email_loop 3 [1, 2] w3
            \<and> trace w3 = trace w @ evs \<and> attempts_made evs = 1
            \<and> retry_events evs = [attempt_failed (0 + 1), Sleep (2 ^ 0)]"
    then obtain w3 evs where eq: "temp_email_loop 3 [0, 1, 2] w = temp_email_loop 3 [1, 2] w3"
      and tr: "trace w3 = trace w @ evs" and am: "attempts_made evs = 1"
      and re0: "retry_events evs = [attempt_failed (0 + 1), Sleep (2 ^ 0)]" by blast
    have "(0::nat) + 1 = 1" and "(2::real) ^ (0::nat) = 1" by simp_all
    with re0 have re: "retry_events evs = [attempt_failed 1, Sleep 1]" by (simp only:)
    from loop_mid [of w3] obtain r w' evs2 where
      mid: "temp_email_loop 3 [1, 2] w3 = (Inr r, w')" and tr2: "trace w' = trace w3 @ evs2"
      and c: "attempts_made evs2 = 1 \<and> retry_events evs2 = [] \<and> (r = (None, None) \<or> (\<exists>e t. r = (Some e, t)))
        \<or> attempts_made evs2 = 2 \<and> retry_events evs2 = [attempt_failed 2, Sleep 2]
             \<and> (r = (None, None) \<or> (\<exists>e t. r = (Some e, t)))
        \<or> attempts_made evs2 = 2 \<and> retry_events evs2 = [attempt_failed 2, Sleep 2, attempt_failed 3]
             \<and> r = (None, None)" by blast
    have run: "temp_email_loop 3 [0, 1, 2] w = (Inr r, w')" using eq mid by simp
    have tr3: "trace w' = trace w @ (evs @ evs2)" using tr tr2 by simp
    from c consider
      (a) "attempts_made evs2 = 1" "retry_events evs2 = []" "r = (None, None) \<or> (\<exists>e t. r = (Some e, t))"
      | (b) "attempts_made evs2 = 2" "retry_events evs2 = [attempt_failed 2, Sleep 2]"
          "r = (None, None) \<or> (\<exists>e t. r = (Some e, t))"
      | (c) "attempts_made evs2 = 2" "retry_events evs2 = [attempt_failed 2, Sleep 2, attempt_failed 3]"
          "r = (None, None)" by blast
    then show ?thesis
    proof cases
      case a
      have "attempts_made (evs @ evs2) = 1 + 1"
        unfolding attempts_made_append am a(1) by simp
      moreover have "retry_events (evs @ evs2) = backoff_schedule 1"
        unfolding retry_events_append re a(2) sched by simp
      moreover have "(1::nat) < 3" by simp
      ultimately show ?thesis using run tr3 a(3) by blast
    next
      case b
      have "attempts_made (evs @ evs2) = 2 + 1"
        unfolding attempts_made_append am b(1) by simp
      moreover have "retry_events (evs @ evs2) = backoff_schedule 2"
        unfolding retry_events_append re b(2) sched by simp
      moreover have "(2::nat) < 3" by simp
      ultimately show ?thesis using run tr3 b(3) by blast
    next
      case c
      have "attempts_made (evs @ evs2) = 2 + 1"
        unfolding attempts_made_append am c(1) by simp
      moreover have "retry_events (evs @ evs2) = backoff_schedule 2 @ [attempt_failed 3]"
        unfolding retry_events_append re c(2) sched by simp
      moreover have "(2::nat) < 3" by simp
      ultimately show ?thesis using run tr3 c(3) by blast
    qed
  qed
qed


section \<open>Generators that cannot fail\<close>

lemma and_then_totalI:
  assumes "\<exists>x w1. m = (Inr x, w1)" and "\<And>x w1. \<exists>y w2. f x w1 = (Inr y, w2)"
  shows "\<exists>y w2. and_then m f = (Inr y, w2)"
  using assms by (auto simp: and_then_Inr_simp)

lemma choice_total: "xs \<noteq> [] \<Longrightarrow> \<exists>x w'. choice xs w = (Inr x, w')"
  using choice_nonempty [of xs w] by blast

lemma choices_total: "xs \<noteq> [] \<Longrightarrow> \<exists>cs w'. choices n xs w = (Inr cs, w')"
  using choices_nonempty [of xs n w] by blast

lemma randbelow_total: "0 < n \<Longrightarrow> \<exists>r w'. randbelow n w = (Inr r, w')"
  by (simp add: randbelow_def)

lemma generate_email_total:
  "domains g \<noteq> [] \<Longrightarrow> \<exists>email w'. generate_email g f l c w = (Inr email, w')"
  unfolding generate_email_def
  by (intro and_then_totalI choice_total randbelow_total) (simp_all add: Let_def)

lemma generate_name_default_total:
  "\<exists>n w'. generate_name default_generator gender c w = (Inr n, w')"
proof -
  have firsts: "\<exists>v w'. get_or (first_names default_generator) k ''neutral'' w = (Inr v, w') \<and> v \<noteq> []"
    for k w
    by (simp add: get_or_def default_generator_def)
  have lasts: "\<exists>v w'. get_or (last_names default_generator) k ''US'' w = (Inr v, w') \<and> v \<noteq> []"
    for k w
    by (simp add: get_or_def default_generator_def)
  have pick: "\<exists>y w2. and_then (get_or t k d w) (\<lambda>xs w. and_then (choice xs w) h) = (Inr y, w2)"
    if "\<exists>v w'. get_or t k d w = (Inr v, w') \<and> v \<noteq> []"
      and "\<And>x w1. \<exists>y w2. h x w1 = (Inr y, w2)"
    for t :: "string \<rightharpoonup> string list" and k d w and h :: "string \<Rightarrow> world \<Rightarrow> (string \<times> string) result"
  proof -
    from that(1) obtain v w' where g: "get_or t k d w = (Inr v, w')" and v: "v \<noteq> []" by blast
    from choice_total [OF v, of w'] obtain x w1 where "choice v w' = (Inr x, w1)" by blast
    with g that(2) [of x w1] show ?thesis by (simp add: and_then_Inr_simp)
  qed
  have gender: "\<exists>x w1. (if b then choice [''male'', ''female'', ''neutral''] w else (Inr s, w)) = (Inr x, w1)"
    for b s w
    using choice_total [of "[''male'', ''female'', ''neutral'']" w] by auto
  show ?thesis
    unfolding generate_name_def Let_def
    by (intro and_then_totalI gender pick firsts lasts) simp
qed


lemma fill_format_total: "\<exists>s w'. fill_format fmt w = (Inr s, w')"
proof (induction fmt arbitrary: w)
  case Nil
  show ?case by simp
next
  case (Cons c cs)
  have step: "\<exists>d w1. (if c = CHR ''#'' then choice digits w else (Inr c, w)) = (Inr d, w1)"
    using choice_total [of digits w] by (auto simp: digits_def)
  show ?case
    unfolding fill_format.simps
    by (intro and_then_totalI step Cons.IH) simp
qed

lemma generate_phone_default_total:
  "\<exists>p w'. generate_phone default_generator c w = (Inr p, w')"
proof -
  have "\<exists>v w'. get_or (phone_formats default_generator) c ''US'' w = (Inr v, w')"
    by (simp add: get_or_def default_generator_def)
  then show ?thesis
    unfolding generate_phone_def by (intro and_then_totalI fill_format_total)
qed

lemma generate_username_total: "\<exists>u w'. generate_username f l w = (Inr u, w')"
  unfolding generate_username_def token_hex2_def Let_def
  by (intro and_then_totalI randbelow_total) simp_all

lemma generate_birthdate_total:
  "min_age \<le> max_age \<Longrightarrow> \<exists>b w'. generate_birthdate min_age max_age w = (Inr b, w')"
  unfolding generate_birthdate_def birthdate_parts_def Let_def now_def
  by (simp add: split_def) (intro and_then_totalI randbelow_total, simp_all)

lemma generate_password_total: "\<exists>p w'. generate_password w = (Inr p, w')"
  unfolding generate_password_def Let_def
  by (rule choices_total) (simp add: digits_def)

lemma generate_temp_email_total: "\<exists>r w'. generate_temp_email w = (Inr r, w')"
  using loop_first [of w] unfolding generate_temp_email_def Let_def upt3 by blast

lemma choose_email_total:
  assumes "domains g \<noteq> []"
  shows "\<exists>r w'. choose_email g f l c use_temp_email manual_email w = (Inr r, w')"
proof -
  have fallback: "\<exists>y w2. and_then (generate_email g f l c w1) (\<lambda>email w. (Inr (email, None), w)) = (Inr y, w2)"
    for w1
    by (intro and_then_totalI generate_email_total assms) simp
  have "\<exists>y w2. and_then (generate_temp_email w) (\<lambda>(email, email_token) w.
        if \<not> truthy email then
          and_then (generate_email g f l c w) (\<lambda>email w. (Inr (email, None), w))
        else (Inr (the email, email_token), w)) = (Inr y, w2)"
    by (intro and_then_totalI generate_temp_email_total) (simp add: split_def fallback [simplified])
  then show ?thesis
    unfolding choose_email_def using fallback by auto
qed

lemma generate_identity_default_total:
  assumes "min_age \<le> max_age"
  shows "\<exists>ident w'. generate_identity default_generator c gender use_temp_email manual_email
                       min_age max_age w = (Inr ident, w')"
proof -
  have doms: "domains default_generator \<noteq> []" by (simp add: default_generator_def)
  show ?thesis
    unfolding generate_identity_def
    apply (rule and_then_totalI [OF generate_name_default_total])
    apply (simp only: split_def Let_def)
    apply (rule and_then_totalI [OF choose_email_total [OF doms]])
    apply (rule and_then_totalI [OF generate_phone_default_total])
    apply (rule and_then_totalI [OF generate_address_default_total])
    apply (rule and_then_totalI [OF generate_username_total])
    apply (rule and_then_totalI [OF generate_birthdate_total [OF assms]])
    apply (rule and_then_totalI [OF generate_password_total])
    apply (simp add: now_def)
    done
qed



section \<open>Provisioning with fallback\<close>




section \<open>Polling the inbox\<close>















section \<open>Exporting a batch\<close>

lemma keys_dict_set: "fst ` set (dict_set k v kvs) = insert k (fst ` set kvs)"
proof (induction kvs)
  case Nil
  show ?case by simp
next
  case (Cons p kvs)
  obtain k' v' where p: "p = (k', v')" by (cases p)
  show ?case unfolding p using Cons.IH by (cases "k' = k") auto
qed

lemma keys_foldl_dict_set:
  "fst ` set (foldl (\<lambda>flat (k, v). dict_set (f k) v flat) acc kvs)
     = fst ` set acc \<union> f ` fst ` set kvs"
proof (induction kvs arbitrary: acc)
  case Nil
  show ?case by simp
next
  case (Cons item kvs)
  obtain k v where item: "item = (k, v)" by (cases item)
  show ?case unfolding item by (simp add: Cons.IH keys_dict_set)
qed

lemma keys_flatten_acc:
  "fst ` set (foldl (\<lambda>flat_identity (key, value).
              case value of
                Dict sub \<Rightarrow>
                  foldl (\<lambda>flat_identity (subkey, subvalue).
                           dict_set (key @ ''_'' @ subkey) subvalue flat_identity)
                        flat_identity sub
              | Str s \<Rightarrow> dict_set key s flat_identity) acc identity)
     = fst ` set acc \<union> (\<Union>item \<in> set identity. columns_of item)"
  (is "fst ` set (foldl ?F acc identity) = _")
proof (induction identity arbitrary: acc)
  case Nil
  show ?case by simp
next
  case (Cons item identity)
  obtain key v where item: "item = (key, v)" by (cases item)
  show ?case
  proof (cases v)
    case (Str s)
    have e1: "foldl ?F acc (item # identity) = foldl ?F (dict_set key s acc) identity"
      by (simp add: item Str)
    have e2: "columns_of item = {key}" by (simp add: item Str columns_of_def)
    have "fst ` set (foldl ?F acc (item # identity))
            = fst ` set (dict_set key s acc) \<union> (\<Union>i \<in> set identity. columns_of i)"
      unfolding e1 by (rule Cons.IH)
    also have "\<dots> = fst ` set acc \<union> (\<Union>i \<in> set (item # identity). columns_of i)"
      unfolding keys_dict_set using e2 by auto
    finally show ?thesis .
  next
    case (Dict sub)
    let ?inner = "foldl (\<lambda>flat_identity (subkey, subvalue).
                           dict_set (key @ ''_'' @ subkey) subvalue flat_identity) acc sub"
    have e1: "foldl ?F acc (item # identity) = foldl ?F ?inner identity"
      by (simp add: item Dict)
    have e2: "columns_of item = (\<lambda>subkey. key @ ''_'' @ subkey) ` fst ` set sub"
      by (simp add: item Dict columns_of_def)
    have e3: "fst ` set ?inner = fst ` set acc \<union> (\<lambda>subkey. key @ ''_'' @ subkey) ` fst ` set sub"
      by (rule keys_foldl_dict_set)
    have "fst ` set (foldl ?F acc (item # identity))
            = fst ` set ?inner \<union> (\<Union>i \<in> set identity. columns_of i)"
      unfolding e1 by (rule Cons.IH)
    also have "\<dots> = fst ` set acc \<union> (\<Union>i \<in> set (item # identity). columns_of i)"
      unfolding e3 e2 [symmetric] by auto
    finally show ?thesis .
  qed
qed

lemma keys_flatten_identity:
  "set (map fst (flatten_identity identity)) = (\<Union>item \<in> set identity. columns_of item)"
  unfolding flatten_identity_def set_map keys_flatten_acc by simp

lemma flatten_address:
  "flatten_identity [(''address'', address_dict a)]
     = [(''address_street'', street a), (''address_city'', city a),
        (''address_state'', state a), (''address_country'', country a)]"
  by (simp add: flatten_identity_def address_dict_def)

lemma writerows_keeps:
  assumes "files w filename = Some (Csv rows0)"
  shows "\<exists>r w' more. writerows filename fieldnames rowdicts w = (r, w')
           \<and> (r = Inr () \<or> r = Inl ValueError)
           \<and> files w' filename = Some (Csv (rows0 @ more))
           \<and> trace w' = trace w"
  using assms
proof (induction rowdicts arbitrary: w rows0)
  case Nil
  then show ?case by simp
next
  case (Cons rowdict rowdicts)
  show ?case
  proof (cases "\<exists>k \<in> set (map fst rowdict). k \<notin> set fieldnames")
    case True
    with Cons.prems show ?thesis by simp
  next
    case False
    let ?row = "map (\<lambda>key. case map_of rowdict key of None \<Rightarrow> [] | Some v \<Rightarrow> v) fieldnames"
    let ?w1 = "append_row filename ?row w"
    have "files ?w1 filename = Some (Csv (rows0 @ [?row]))"
      using Cons.prems by (simp add: append_row_def)
    from Cons.IH [OF this] obtain r w' more where
      "writerows filename fieldnames rowdicts ?w1 = (r, w')" "r = Inr () \<or> r = Inl ValueError"
      "files w' filename = Some (Csv ((rows0 @ [?row]) @ more))" "trace w' = trace ?w1" by blast
    moreover have "trace ?w1 = trace w" by (simp add: append_row_def)
    ultimately show ?thesis using False by auto
  qed
qed


lemma save_identity_csv_Cons:
  "\<exists>r w' rows. save_identity lib (first # others) ''csv'' encrypt_password w = (r, w')
     \<and> (r = Inr () \<or> r = Inl ValueError)
     \<and> files w' (''data/identities_'' @ strftime_stamp (clock w (ticks w)) @ ''.csv'')
         = Some (Csv (map fst (flatten_identity first) # rows))"
proof -
  let ?filename = "''data/identities_'' @ strftime_stamp (clock w (ticks w)) @ ''.csv''"
  let ?fieldnames = "map fst (flatten_identity first)"
  let ?w1 = "w\<lparr>ticks := ticks w + 1\<rparr>"
  let ?w2 = "?w1\<lparr>files := (files ?w1)(?filename \<mapsto> Csv [])\<rparr>"
  let ?w3 = "append_row ?filename ?fieldnames ?w2"
  let ?flat = "flatten_identity first # map flatten_identity others"
  have unfold: "save_identity lib (first # others) ''csv'' encrypt_password w
      = and_then (writerows ?filename ?fieldnames ?flat ?w3) (\<lambda>_ w. saved ?filename w)"
    by (simp add: save_identity_def now_def Let_def)
  have "files ?w3 ?filename = Some (Csv ([] @ [?fieldnames]))"
    by (simp add: append_row_def)
  from writerows_keeps [OF this, of ?fieldnames ?flat] obtain r w4 more where
    wr: "writerows ?filename ?fieldnames ?flat ?w3 = (r, w4)"
    and r: "r = Inr () \<or> r = Inl ValueError"
    and f: "files w4 ?filename = Some (Csv (([] @ [?fieldnames]) @ more))" by blast
  from r show ?thesis
  proof
    assume "r = Inr ()"
    with wr f show ?thesis
      unfolding unfold by (simp add: and_then_Inr_simp saved_def emit_def)
  next
    assume "r = Inl ValueError"
    with wr f show ?thesis
      unfolding unfold by (simp add: and_then_Inl_simp)
  qed
qed

text \<open>
  Claim C5: for a non-empty batch, the CSV branch of \<open>save_identity\<close> leaves a file whose
  first row, the header, is the list of keys of the flattened first record, whether the
  rows that follow are all written or a later record stops the export; the set of
  these columns is the union over the items of the first record of the item's key, or
  for a dict-valued item of its \<open>key_subkey\<close> names, which for the address are
  \<open>address_street\<close>, \<open>address_city\<close>, \<open>address_state\<close> and \<open>address_country\<close>. Later
  records do not occur in the header.
\<close>

theorem csv_header_from_first_record:
  assumes "identities \<noteq> []"
  shows "\<exists>r w' rows. save_identity lib identities ''csv'' encrypt_password w = (r, w')
     \<and> (r = Inr () \<or> r = Inl ValueError)
     \<and> files w' (''data/identities_'' @ strftime_stamp (clock w (ticks w)) @ ''.csv'')
         = Some (Csv (map fst (flatten_identity (hd identities)) # rows))
     \<and> set (map fst (flatten_identity (hd identities)))
         = (\<Union>item \<in> set (hd identities). columns_of item)
     \<and> columns_of (''address'', address_dict a)
         = {''address_street'', ''address_city'', ''address_state'', ''address_country''}"
proof -
  from assms obtain first others where ids: "identities = first # others"
    by (cases identities) auto
  have "columns_of (''address'', address_dict a)
         = {''address_street'', ''address_city'', ''address_state'', ''address_country''}"
    by (auto simp: columns_of_def address_dict_def)
  with save_identity_csv_Cons [of lib first others encrypt_password w]
    keys_flatten_identity [of first]
  show ?thesis unfolding ids by auto
qed


theorem csv_header_from_first_record_witness:
  "[[(''first_name'', Str ''John''),
     (''address'', Dict [(''street'', ''1 Main St''), (''city'', ''Albany''),
                         (''state'', ''NY''), (''country'', ''US'')])],
    [(''first_name'', Str ''Mary''),
     (''address'', Dict [(''street'', ''2 Elm St''), (''city'', ''Albany''),
                         (''state'', ''NY''), (''country'', ''US'')]),
     (''email_token'', Str ''secret'')]] \<noteq> []
   \<and> fst (save_identity plain_library
        [[(''first_name'', Str ''John''),
          (''address'', Dict [(''street'', ''1 Main St''), (''city'', ''Albany''),
                              (''state'', ''NY''), (''country'', ''US'')])],
         [(''first_name'', Str ''Mary''),
          (''address'', Dict [(''street'', ''2 Elm St''), (''city'', ''Albany''),
                              (''state'', ''NY''), (''country'', ''US'')]),
          (''email_token'', Str ''secret'')]] ''csv'' None (quiet_world (\<lambda>i. i))) = Inl ValueError
   \<and> (\<exists>rows. files (snd (save_identity plain_library
        [[(''first_name'', Str ''John''),
          (''address'', Dict [(''street'', ''1 Main St''), (''city'', ''Albany''),
                              (''state'', ''NY''), (''country'', ''US'')])],
         [(''first_name'', Str ''Mary''),
          (''address'', Dict [(''street'', ''2 Elm St''), (''city'', ''Albany''),
                              (''state'', ''NY''), (''country'', ''US'')]),
          (''email_token'', Str ''secret'')]] ''csv'' None (quiet_world (\<lambda>i. i))))
        ''data/identities_20261103_090507.csv''
      = Some (Csv ([''first_name'', ''address_street'', ''address_city'', ''address_state'',
                    ''address_country''] # rows)))"
proof -
  define ids where "ids = [[(''first_name'', Str ''John''),
     (''address'', Dict [(''street'', ''1 Main St''), (''city'', ''Albany''),
                         (''state'', ''NY''), (''country'', ''US'')])],
    [(''first_name'', Str ''Mary''),
     (''address'', Dict [(''street'', ''2 Elm St''), (''city'', ''Albany''),
                         (''state'', ''NY''), (''country'', ''US'')]),
     (''email_token'', Str ''secret'')]]"
  define w where "w = quiet_world (\<lambda>i. i)"
  define header where "header = [''first_name'', ''address_street'', ''address_city'',
    ''address_state'', ''address_country'']"
  define filename where "filename = ''data/identities_20261103_090507.csv''"
  have ne: "ids \<noteq> []" by (simp add: ids_def)
  have header: "map fst (flatten_identity (hd ids)) = header"
    by (simp add: flatten_identity_def ids_def header_def)
  have name: "''data/identities_'' @ strftime_stamp (clock w (ticks w)) @ ''.csv'' = filename"
    by (simp add: strftime_stamp_def eval_simps w_def filename_def)
  have raised: "fst (save_identity plain_library ids ''csv'' None w) = Inl ValueError"
    by (simp add: save_identity_def flatten_identity_def append_row_def strftime_stamp_def
        eval_simps ids_def w_def)
  from csv_header_from_first_record [OF ne, of plain_library None w "\<lparr>street = [], city = [], state = [], country = []\<rparr>"]
  have written: "\<exists>rows. files (snd (save_identity plain_library ids ''csv'' None w)) filename
      = Some (Csv (header # rows))"
  proof (elim exE conjE)
    fix r w' rows
    assume "save_identity plain_library ids ''csv'' None w = (r, w')"
      and "files w' (''data/identities_'' @ strftime_stamp (clock w (ticks w)) @ ''.csv'')
             = Some (Csv (map fst (flatten_identity (hd ids)) # rows))"
    then have "files (snd (save_identity plain_library ids ''csv'' None w)) filename
      = Some (Csv (header # rows))"
      unfolding header name by simp
    then show ?thesis ..
  qed
  from ne raised written
  have "ids \<noteq> [] \<and> fst (save_identity plain_library ids ''csv'' None w) = Inl ValueError
     \<and> (\<exists>rows. files (snd (save_identity plain_library ids ''csv'' None w)) filename
      = Some (Csv (header # rows)))"
    by (intro conjI)
  then show ?thesis
    unfolding ids_def w_def header_def filename_def .
qed

lemma save_identity_csv_empty:
  "fst (save_identity lib [] ''csv'' encrypt_password w) = Inl IndexError"
  by (simp add: save_identity_def now_def Let_def)

lemma save_identity_csv_nonempty:
  assumes "identities \<noteq> []"
  shows "fst (save_identity lib identities ''csv'' encrypt_password w) \<noteq> Inl IndexError"
proof -
  from assms obtain first others where ids: "identities = first # others"
    by (cases identities) auto
  from save_identity_csv_Cons [of lib first others encrypt_password w]
  show ?thesis unfolding ids by auto
qed

lemma batch_loop_length:
  "batch_loop g n c gender fields0 preview min_age max_age use_temp_email manual_email w
     = (Inr identities, w') \<Longrightarrow> length identities = n"
proof (induction n arbitrary: w identities w')
  case 0
  then show ?case by simp
next
  case (Suc n)
  from Suc.prems obtain rest w1 w2 where
    "batch_loop g n c gender fields0 preview min_age max_age use_temp_email manual_email w1
       = (Inr rest, w2)" and "length identities = Suc (length rest)"
    by (auto simp: and_then_Inr Let_def)
  with Suc.IH show ?case by auto
qed

lemma batch_loop_default_total:
  assumes "min_age \<le> max_age"
  shows "\<exists>identities w'. batch_loop default_generator n c gender fields0 preview min_age max_age
            use_temp_email manual_email w = (Inr identities, w')"
proof (induction n arbitrary: w)
  case 0
  show ?case by simp
next
  case (Suc n)
  show ?case
    unfolding batch_loop.simps Let_def
    by (intro and_then_totalI generate_identity_default_total assms Suc.IH) simp
qed


lemma generate_batch_default_csv:
  assumes "1 \<le> count" and "min_age \<le> max_age"
  shows "fst (generate_batch_identities default_generator lib count c gender True fields0 ''csv''
                preview min_age max_age use_temp_email manual_email encrypt_password w)
           \<noteq> Inl IndexError"
proof -
  from batch_loop_default_total [OF assms(2)] obtain identities w1 where
    loop: "batch_loop default_generator (nat count) c gender fields0 preview min_age max_age
             use_temp_email manual_email w = (Inr identities, w1)" by blast
  from batch_loop_length [OF loop] assms(1) have "identities \<noteq> []" by auto
  from save_identity_csv_nonempty [OF this, of lib encrypt_password w1]
  show ?thesis
    unfolding generate_batch_identities_def loop and_then_Inr_simp
    by (cases "save_identity lib identities ''csv'' encrypt_password w1")
       (auto simp: and_then_def split: sum.splits)
qed

text \<open>
  Claim C10: with an empty list the CSV branch of \<open>save_identity\<close> raises \<^verbatim>\<open>IndexError\<close>
  (at \<^verbatim>\<open>flat_identities[0]\<close>), and with a non-empty list it does not. A batch that
  \<open>batch_loop\<close> returns for a count of at least 1 is not empty, and the shell runs no
  batch for a count below 1; so with the built-in tables and an age range that is not
  empty, a CSV export started by \<open>generate_batch_identities\<close> never ends in
  \<^verbatim>\<open>IndexError\<close>.
\<close>

theorem csv_export_needs_a_record:
  "fst (save_identity lib [] ''csv'' encrypt_password w) = Inl IndexError
   \<and> (\<forall>identities. identities \<noteq> []
         \<longrightarrow> fst (save_identity lib identities ''csv'' encrypt_password w) \<noteq> Inl IndexError)
   \<and> (\<forall>identities w'.
         batch_loop g (nat count) c gender fields0 preview min_age max_age use_temp_email
           manual_email w = (Inr identities, w') \<and> 1 \<le> count
         \<longrightarrow> identities \<noteq> [])
   \<and> (\<forall>a. arg_count a < 1
         \<longrightarrow> main_generate g lib (Some a) w = emit (Print ''Error: Count must be positive'') w)
   \<and> (1 \<le> count \<and> min_age \<le> max_age
         \<longrightarrow> fst (generate_batch_identities default_generator lib count c gender True fields0
                     ''csv'' preview min_age max_age use_temp_email manual_email
                     encrypt_password w) \<noteq> Inl IndexError)"
proof (intro conjI allI impI)
  show "fst (save_identity lib [] ''csv'' encrypt_password w) = Inl IndexError"
    by (rule save_identity_csv_empty)
next
  fix identities :: "identity list"
  assume "identities \<noteq> []"
  then show "fst (save_identity lib identities ''csv'' encrypt_password w) \<noteq> Inl IndexError"
    by (rule save_identity_csv_nonempty)
next
  fix identities w'
  assume "batch_loop g (nat count) c gender fields0 preview min_age max_age use_temp_email
           manual_email w = (Inr identities, w') \<and> 1 \<le> count"
  then have "length identities = nat count" and "1 \<le> count"
    using batch_loop_length by blast+
  then show "identities \<noteq> []" by auto
next
  fix a :: args
  assume "arg_count a < 1"
  then show "main_generate g lib (Some a) w = emit (Print ''Error: Count must be positive'') w"
    by (simp add: main_generate_def)
next
  assume "1 \<le> count \<and> min_age \<le> max_age"
  then show "fst (generate_batch_identities default_generator lib count c gender True fields0
                     ''csv'' preview min_age max_age use_temp_email manual_email
                     encrypt_password w) \<noteq> Inl IndexError"
    using generate_batch_default_csv by blast
qed

theorem csv_export_needs_a_record_witness:
  "fst (save_identity plain_library [] ''csv'' None (quiet_world (\<lambda>i. i))) = Inl IndexError
   \<and> fst (save_identity plain_library [[(''first_name'', Str ''John'')]] ''csv'' None
            (quiet_world (\<lambda>i. i))) = Inr ()
   \<and> (\<exists>identities w'.
         batch_loop default_generator (nat 1) ''US'' ''any'' None True 18 65 False None
           (quiet_world (\<lambda>i. i)) = (Inr identities, w') \<and> identities \<noteq> [])
   \<and> main_generate default_generator plain_library (Some (default_args\<lparr>arg_count := 0\<rparr>))
         (quiet_world (\<lambda>i. i))
       = emit (Print ''Error: Count must be positive'') (quiet_world (\<lambda>i. i))
   \<and> fst (generate_batch_identities default_generator plain_library 1 ''US'' ''any'' True None
            ''csv'' True 18 65 False None None (quiet_world (\<lambda>i. i))) \<noteq> Inl IndexError"
proof -
  define w where "w = quiet_world (\<lambda>i. i)"
  note inst = csv_export_needs_a_record
    [of plain_library None w default_generator 1 "''US''" "''any''" None True 18 65 False None]
  have empty: "fst (save_identity plain_library [] ''csv'' None w) = Inl IndexError"
    using inst by (elim conjE)
  have one: "fst (save_identity plain_library [[(''first_name'', Str ''John'')]] ''csv'' None w) = Inr ()"
    by (simp add: save_identity_def flatten_identity_def append_row_def saved_def
        strftime_stamp_def eval_simps w_def Let_def)
  from batch_loop_default_total [of 18 65 "nat 1" "''US''" "''any''" None True False None w]
  obtain identities w' where loop:
    "batch_loop default_generator (nat 1) ''US'' ''any'' None True 18 65 False None w
       = (Inr identities, w')" by auto
  have "(1::int) \<le> 1" by simp
  with inst loop have "identities \<noteq> []" by (elim conjE) blast
  with loop have batch: "\<exists>identities w'.
         batch_loop default_generator (nat 1) ''US'' ''any'' None True 18 65 False None w
           = (Inr identities, w') \<and> identities \<noteq> []" by blast
  have "arg_count (default_args\<lparr>arg_count := 0\<rparr>) < 1" by simp
  with inst have rejected:
    "main_generate default_generator plain_library (Some (default_args\<lparr>arg_count := 0\<rparr>)) w
       = emit (Print ''Error: Count must be positive'') w" by (elim conjE) blast
  have "(1::int) \<le> 1 \<and> (18::int) \<le> 65" by simp
  with inst have whole:
    "fst (generate_batch_identities default_generator plain_library 1 ''US'' ''any'' True None
            ''csv'' True 18 65 False None None w) \<noteq> Inl IndexError" by (elim conjE) blast
  from empty one batch rejected whole show ?thesis
    unfolding w_def by (intro conjI)
qed



subsection \<open>Serialised and encrypted exports\<close>

text \<open>
  What the branch for the other formats writes. With a password the text handed to the
  Fernet encryption is the serialised batch, and the key is the base64 encoding of the
  PBKDF2-HMAC-SHA256 output for that password, the salt \<open>salt_\<close>, 100000 iterations
  and 32 bytes: it depends on the password only. Decryption is no part of the program.
\<close>

lemma save_identity_encrypted_text:
  assumes "truthy encrypt_password" and "output_format \<noteq> ''csv''"
  shows "files (snd (save_identity lib identities output_format encrypt_password w))
           (''data/identities_'' @ strftime_stamp (clock w (ticks w)) @ ''.'' @ output_format)
         = Some (Text (fernet_encrypt lib
                   (urlsafe_b64encode lib
                      (pbkdf2_hmac_sha256 lib (the encrypt_password) ''salt_'' 100000 32))
                   (entropy w (drawn w)) (clock w (ticks w + 1))
                   (if output_format = ''json'' then json_dumps lib identities
                    else yaml_dump lib identities)))"
  using assms by (simp add: save_identity_def now_def Let_def saved_def emit_def)

lemma save_identity_plain_text:
  assumes "\<not> truthy encrypt_password" and "output_format \<noteq> ''csv''"
  shows "files (snd (save_identity lib identities output_format encrypt_password w))
           (''data/identities_'' @ strftime_stamp (clock w (ticks w)) @ ''.'' @ output_format)
         = Some (Text (if output_format = ''json'' then json_dumps lib identities
                       else yaml_dump lib identities))"
  using assms by (simp add: save_identity_def now_def Let_def saved_def emit_def)

section \<open>The shell\<close>

text \<open>
  Claim C6: a \<^verbatim>\<open>generate\<close> command with an encryption password and the format
  \<open>csv\<close> only prints one diagnostic (the one about encryption when the checks placed
  before it pass): no file is written, no random number is drawn, no request is made,
  and the loop goes on with the next command.
\<close>

theorem encrypted_csv_rejected:
  assumes "truthy (arg_encrypt a)" and "arg_format a = ''csv''"
  shows "\<exists>msg. main_generate g lib (Some a) w = emit (Print msg) w
      \<and> msg \<in> {''Error: Count must be positive'',
                 ''Error: Invalid age range (min_age >=0, min_age <= max_age <=120)'',
                 ''Error: Cannot use both --use-temp-email and --manual-email'',
                 ''Error: Encryption is not supported for CSV format''}
      \<and> (1 \<le> arg_count a \<and> 0 \<le> arg_min_age a \<and> arg_min_age a \<le> arg_max_age a
           \<and> arg_max_age a \<le> 120 \<and> \<not> (arg_use_temp_email a \<and> truthy (arg_manual_email a))
           \<longrightarrow> msg = ''Error: Encryption is not supported for CSV format'')
      \<and> files (main_generate g lib (Some a) w) = files w
      \<and> drawn (main_generate g lib (Some a) w) = drawn w
      \<and> requests (main_generate g lib (Some a) w) = requests w
      \<and> main_loop g lib (Generate (Some a) # commands) w
           = main_loop g lib commands (emit (Print msg) (show_menu w))"
proof -
  define msg where "msg =
    (if arg_count a < 1 then ''Error: Count must be positive''
     else if arg_min_age a < 0 \<or> arg_max_age a < arg_min_age a \<or> arg_max_age a > 120
       then ''Error: Invalid age range (min_age >=0, min_age <= max_age <=120)''
     else if arg_use_temp_email a \<and> truthy (arg_manual_email a)
       then ''Error: Cannot use both --use-temp-email and --manual-email''
     else ''Error: Encryption is not supported for CSV format'')"
  have run: "main_generate g lib (Some a) v = emit (Print msg) v" for v
    using assms by (simp add: main_generate_def msg_def)
  have "msg \<in> {''Error: Count must be positive'',
                 ''Error: Invalid age range (min_age >=0, min_age <= max_age <=120)'',
                 ''Error: Cannot use both --use-temp-email and --manual-email'',
                 ''Error: Encryption is not supported for CSV format''}"
    unfolding msg_def by (simp only: insert_iff if_split) simp
  moreover have "1 \<le> arg_count a \<and> 0 \<le> arg_min_age a \<and> arg_min_age a \<le> arg_max_age a
           \<and> arg_max_age a \<le> 120 \<and> \<not> (arg_use_temp_email a \<and> truthy (arg_manual_email a))
           \<longrightarrow> msg = ''Error: Encryption is not supported for CSV format''"
    unfolding msg_def by auto
  moreover have "files (emit (Print msg) w) = files w" "drawn (emit (Print msg) w) = drawn w"
    "requests (emit (Print msg) w) = requests w"
    by (simp_all add: emit_def)
  moreover have "main_loop g lib (Generate (Some a) # commands) w
           = main_loop g lib commands (emit (Print msg) (show_menu w))"
    by (simp add: run)
  ultimately show ?thesis unfolding run [of w] by (intro exI [of _ msg] conjI refl)
qed

theorem encrypted_csv_rejected_witness:
  "truthy (arg_encrypt (default_args\<lparr>arg_save := True, arg_format := ''csv'',
                                       arg_encrypt := Some ''hunter2''\<rparr>))
   \<and> main_generate default_generator plain_library
        (Some (default_args\<lparr>arg_save := True, arg_format := ''csv'', arg_encrypt := Some ''hunter2''\<rparr>))
        (quiet_world (\<lambda>i. i))
      = emit (Print ''Error: Encryption is not supported for CSV format'') (quiet_world (\<lambda>i. i))
   \<and> main_loop default_generator plain_library
        [Generate (Some (default_args\<lparr>arg_save := True, arg_format := ''csv'',
                                        arg_encrypt := Some ''hunter2''\<rparr>)), Stop]
        (quiet_world (\<lambda>i. i))
      = emit (Print ''Exiting program.'')
          (show_menu (emit (Print ''Error: Encryption is not supported for CSV format'')
                        (show_menu (quiet_world (\<lambda>i. i)))))"
proof -
  define a where "a = default_args\<lparr>arg_save := True, arg_format := ''csv'',
                                    arg_encrypt := Some ''hunter2''\<rparr>"
  define w where "w = quiet_world (\<lambda>i. i)"
  have enc: "truthy (arg_encrypt a)" by (simp add: a_def truthy_def)
  have csv: "arg_format a = ''csv''" by (simp add: a_def)
  have valid: "1 \<le> arg_count a \<and> 0 \<le> arg_min_age a \<and> arg_min_age a \<le> arg_max_age a
           \<and> arg_max_age a \<le> 120 \<and> \<not> (arg_use_temp_email a \<and> truthy (arg_manual_email a))"
    by (simp add: a_def default_args_def)
  from encrypted_csv_rejected [OF enc csv, of default_generator plain_library w "[Stop]"]
  obtain msg where
    run: "main_generate default_generator plain_library (Some a) w = emit (Print msg) w"
    and msg: "1 \<le> arg_count a \<and> 0 \<le> arg_min_age a \<and> arg_min_age a \<le> arg_max_age a
           \<and> arg_max_age a \<le> 120 \<and> \<not> (arg_use_temp_email a \<and> truthy (arg_manual_email a))
           \<longrightarrow> msg = ''Error: Encryption is not supported for CSV format''"
    and loop: "main_loop default_generator plain_library (Generate (Some a) # [Stop]) w
           = main_loop default_generator plain_library [Stop] (emit (Print msg) (show_menu w))"
    by (elim exE conjE)
  from msg valid have m: "msg = ''Error: Encryption is not supported for CSV format''" by (rule mp)
  have stop: "main_loop default_generator plain_library [Stop] v
                = emit (Print ''Exiting program.'') (show_menu v)" for v
    by simp
  from enc run loop show ?thesis
    unfolding m stop a_def w_def by (intro conjI)
qed

section \<open>Loading the configuration\<close>

lemmas init_eval_simps =
  init_def then_load_def load_table_def warn_def emit_def py_in_def is_list_def is_str_def
  dict_of_lists_def dict_of_strs_def json_table_def custom_dir_def default_raw_def
  quiet_world_def

lemma well_formed_default: "well_formed default_raw = Some default_generator"
  by (simp add: well_formed_def default_raw_def json_table_def table_of_def str_list_of_def
      formats_of_def is_str_def default_generator_def fun_eq_iff)

lemma init_custom:
  "fst (init custom_dir (quiet_world (\<lambda>i. i)))
     = Inr \<lparr>raw_first_names = json_table [(''male'', [''Arjun'']), (''female'', [''Priya'']),
                                            (''neutral'', [''Kiran''])],
            raw_last_names = json_table [(''US'', [''Miller'']), (''in'', [''Patel''])],
            raw_domains = JList [JStr ''mail.example''],
            raw_streets = json_table [(''US'', [''Oak St'']), (''in'', [''Lake Road''])],
            raw_addresses = json_table [(''CA'', [''Fresno'']), (''TX'', [''Austin''])],
            raw_phone_formats = JDict [(''US'', JStr ''+1 (###) ###-####'')]\<rparr>
   \<and> trace (snd (init custom_dir (quiet_world (\<lambda>i. i)))) = []"
  by (simp add: init_eval_simps)

text \<open>When the six files hold values that pass their checks, these values become the
  tables; and the only exception that leaves \<open>init\<close> is \<^verbatim>\<open>TypeError\<close>.\<close>

lemma init_loads_valid_tables:
  assumes "all_in [''male'', ''female'', ''neutral''] j1 = Inr True"
    and "dict_of_lists j2" and "is_list j3" and "dict_of_lists j4" and "dict_of_lists j5"
    and "dict_of_strs j6"
  shows "init \<lparr>first_names_file = Loaded j1, last_names_file = Loaded j2,
                domains_file = Loaded j3, streets_file = Loaded j4,
                addresses_file = Loaded j5, phone_formats_file = Loaded j6\<rparr> w
           = (Inr \<lparr>raw_first_names = j1, raw_last_names = j2, raw_domains = j3,
                   raw_streets = j4, raw_addresses = j5, raw_phone_formats = j6\<rparr>, w)"
  using assms by (simp add: init_def then_load_def load_table_def default_raw_def)

lemma init_only_type_error:
  "fst (init dir w) = Inl e \<Longrightarrow> e = TypeError"
  by (auto simp: init_def then_load_def load_table_def py_in_def Let_def
      split: config_file.splits sum.splits load_outcome.splits prod.splits json.splits if_splits)

text \<open>
  Claim C7 does not hold of \<open>init\<close>. With \<^verbatim>\<open>domains.json\<close> holding the JSON object
  \<^verbatim>\<open>{}\<close> and the other five files well formed, the warning that announces the
  fallback is printed and logged, but the attribute keeps the loaded object, which is
  no list of domains. With \<^verbatim>\<open>first_names.json\<close> missing, the five well-formed files
  after it are not read and all six tables are the built-in ones. With
  \<^verbatim>\<open>first_names.json\<close> holding the number \<^verbatim>\<open>5\<close>, the membership test raises
  \<^verbatim>\<open>TypeError\<close>, which no clause catches.
\<close>

theorem init_keeps_malformed_table:
  "(\<exists>self w'. init (custom_dir\<lparr>domains_file := Loaded (JDict [])\<rparr>) (quiet_world (\<lambda>i. i))
                 = (Inr self, w')
       \<and> raw_domains self = JDict [] \<and> raw_domains self \<noteq> raw_domains default_raw
       \<and> well_formed self = None
       \<and> trace w' = [Print ''Warning: domains.json has invalid format, using fallbacks.'',
                      Log ''domains.json validation failed, using fallbacks''])
   \<and> fst (init (custom_dir\<lparr>first_names_file := Missing\<rparr>) (quiet_world (\<lambda>i. i)))
       = Inr default_raw
   \<and> fst (init (custom_dir\<lparr>first_names_file := Loaded (JNum 5)\<rparr>) (quiet_world (\<lambda>i. i)))
       = Inl TypeError"
proof (intro conjI)
  show "\<exists>self w'. init (custom_dir\<lparr>domains_file := Loaded (JDict [])\<rparr>) (quiet_world (\<lambda>i. i))
                 = (Inr self, w')
       \<and> raw_domains self = JDict [] \<and> raw_domains self \<noteq> raw_domains default_raw
       \<and> well_formed self = None
       \<and> trace w' = [Print ''Warning: domains.json has invalid format, using fallbacks.'',
                      Log ''domains.json validation failed, using fallbacks'']"
    by (simp add: init_eval_simps well_formed_def str_list_of_def table_of_def formats_of_def)
  show "fst (init (custom_dir\<lparr>first_names_file := Missing\<rparr>) (quiet_world (\<lambda>i. i)))
       = Inr default_raw"
    by (simp add: init_eval_simps)
  show "fst (init (custom_dir\<lparr>first_names_file := Loaded (JNum 5)\<rparr>) (quiet_world (\<lambda>i. i)))
       = Inl TypeError"
    by (simp add: init_eval_simps)
qed

end
